theory Spec2Isabelle
  imports Complex_Main "HOL-Library.Sublist"
begin

section \<open>Text: characters, case mapping, word boundaries\<close>

text \<open>
  A Python \<open>str\<close> is modelled as a \<open>string\<close> whose characters stand for the code points
  U+0000 .. U+00FF (one \<open>char\<close> per code point). The character classes below are those
  of Python 3 on that range: \<open>\w\<close>, \<open>\d\<close> of the \<open>re\<close> module on \<open>str\<close> patterns,
  the white space of \<open>str.split()\<close>, and the case mapping of \<open>str.lower()\<close>.
\<close>

definition is_word_char :: "char \<Rightarrow> bool" where
  \<comment> \<open>\<open>\w\<close>: alphanumeric code points and the underscore\<close>
  "is_word_char c =
     (let n = (of_char c :: nat) in
        (48 \<le> n \<and> n \<le> 57) \<or> (65 \<le> n \<and> n \<le> 90) \<or> n = 95 \<or> (97 \<le> n \<and> n \<le> 122) \<or>
        n = 170 \<or> n = 178 \<or> n = 179 \<or> n = 181 \<or> n = 185 \<or> n = 186 \<or>
        (188 \<le> n \<and> n \<le> 190) \<or> (192 \<le> n \<and> n \<le> 214) \<or> (216 \<le> n \<and> n \<le> 246) \<or>
        248 \<le> n)"

definition is_digit :: "char \<Rightarrow> bool" where
  \<comment> \<open>\<open>\d\<close>: decimal digits\<close>
  "is_digit c = (let n = (of_char c :: nat) in 48 \<le> n \<and> n \<le> 57)"

definition is_space :: "char \<Rightarrow> bool" where
  \<comment> \<open>the separators of \<open>str.split()\<close>\<close>
  "is_space c =
     (let n = (of_char c :: nat) in
        (9 \<le> n \<and> n \<le> 13) \<or> (28 \<le> n \<and> n \<le> 32) \<or> n = 133 \<or> n = 160)"

definition lower_char :: "char \<Rightarrow> char" where
  "lower_char c =
     (let n = (of_char c :: nat) in
        if (65 \<le> n \<and> n \<le> 90) \<or> (192 \<le> n \<and> n \<le> 222 \<and> n \<noteq> 215)
        then char_of (n + 32) else c)"

definition lower :: "string \<Rightarrow> string" where
  \<comment> \<open>\<open>text.lower()\<close>\<close>
  "lower text = map lower_char text"

definition is_word_opt :: "char option \<Rightarrow> bool" where
  \<comment> \<open>the positions left of the first and right of the last character count as non-word\<close>
  "is_word_opt x = (case x of None \<Rightarrow> False | Some c \<Rightarrow> is_word_char c)"

definition word_boundary :: "char option \<Rightarrow> char option \<Rightarrow> bool" where
  \<comment> \<open>\<open>\b\<close> between the character left and the character right of a position\<close>
  "word_boundary prv nxt = (is_word_opt prv \<noteq> is_word_opt nxt)"

definition head_opt :: "string \<Rightarrow> char option" where
  "head_opt s = (case s of [] \<Rightarrow> None | c # _ \<Rightarrow> Some c)"

definition last_opt :: "char option \<Rightarrow> string \<Rightarrow> char option" where
  \<comment> \<open>the character left of the position reached by reading \<open>s\<close>, given the one left of \<open>s\<close>\<close>
  "last_opt prv s = (if s = [] then prv else Some (last s))"

section \<open>The whole-word search of the term extractor\<close>

text \<open>
  \<open>re.search(r'\b' + re.escape(term) + r'\b', text)\<close>: the pattern is a literal between
  two \<open>\b\<close> assertions, so it matches at a position exactly when the position is a word
  boundary, the literal is a prefix of the rest, and the position behind the literal is a
  word boundary. The search tries the positions from left to right, the end of the text
  included. \<open>prv\<close> is the character left of the current position.
\<close>

definition match_term_at :: "string \<Rightarrow> char option \<Rightarrow> string \<Rightarrow> bool" where
  "match_term_at term prv s =
     (word_boundary prv (head_opt s) \<and> prefix term s \<and>
      word_boundary (last_opt prv term) (head_opt (drop (length term) s)))"

fun re_search_term :: "string \<Rightarrow> char option \<Rightarrow> string \<Rightarrow> bool" where
  "re_search_term term prv [] = match_term_at term prv []"
| "re_search_term term prv (c # cs) =
     (match_term_at term prv (c # cs) \<or> re_search_term term (Some c) cs)"

section \<open>Static configuration\<close>

definition FINANCIAL_TERMS :: "(string \<times> string list) list" where
  "FINANCIAL_TERMS =
    [(''revenue'', [''revenue'', ''sales'', ''income'', ''earnings'', ''money'', ''earn'',
                   ''top line'', ''turnover'']),
     (''net_income'', [''net income'', ''profit'', ''earnings'', ''bottom line'',
                      ''net earnings'', ''income'']),
     (''assets'', [''assets'', ''property'', ''holdings'', ''possessions'', ''resources'']),
     (''liabilities'', [''liabilities'', ''debt'', ''obligations'', ''payables'']),
     (''cash_flow'', [''cash flow'', ''cash'', ''liquidity'', ''funds flow'', ''operating cash'']),
     (''growth'', [''growth'', ''increase'', ''rise'', ''improvement'', ''expansion'']),
     (''performance'', [''performance'', ''results'', ''achievements'', ''accomplishments'',
                       ''records'']),
     (''comparison'', [''compare'', ''comparison'', ''versus'', ''vs'', ''against'',
                      ''relative to'']),
     (''trend'', [''trend'', ''pattern'', ''direction'', ''movement'', ''trajectory'',
                 ''history'']),
     (''forecast'', [''forecast'', ''predict'', ''projection'', ''outlook'', ''future'',
                    ''expectation''])]"

section \<open>Term extractor\<close>

text \<open>
  A Python \<open>dict\<close> keeps its keys in insertion order, and the classifier reads the first
  key, so the dictionary of extracted terms is an association list in insertion order.
\<close>

type_synonym terms_dict = "(string \<times> string list) list"

definition dict_keys :: "terms_dict \<Rightarrow> string list" where
  "dict_keys d = map fst d"

definition dict_append :: "terms_dict \<Rightarrow> string \<Rightarrow> string \<Rightarrow> terms_dict" where
  \<comment> \<open>\<open>if category not in d: d[category] = []\<close> followed by \<open>d[category].append(term)\<close>\<close>
  "dict_append d category term =
     (let d' = (if category \<in> set (dict_keys d) then d else d @ [(category, [])])
      in map (\<lambda>(k, vs). if k = category then (k, vs @ [term]) else (k, vs)) d')"

definition extract_terms_of :: "string \<Rightarrow> string \<Rightarrow> string list \<Rightarrow> terms_dict \<Rightarrow> terms_dict" where
  \<comment> \<open>the inner loop over the synonyms of one category\<close>
  "extract_terms_of text category terms extracted_terms =
     fold (\<lambda>term d. if re_search_term term None text then dict_append d category term else d)
       terms extracted_terms"

definition extract_financial_terms :: "string \<Rightarrow> terms_dict" where
  "extract_financial_terms text0 =
     (let text = lower text0
      in fold (\<lambda>(category, terms) d. extract_terms_of text category terms d) FINANCIAL_TERMS [])"


section \<open>Text normalizer\<close>

function str_split :: "string \<Rightarrow> string list" where
  \<comment> \<open>\<open>text.split()\<close>: the maximal runs of characters that are not white space\<close>
  "str_split [] = []"
| "str_split (c # cs) =
     (if is_space c then str_split cs
      else takeWhile (\<lambda>x. \<not> is_space x) (c # cs) #
           str_split (dropWhile (\<lambda>x. \<not> is_space x) cs))"
  by pat_completeness auto
termination
  by (relation "measure length") (auto simp: less_Suc_eq_le length_dropWhile_le)

definition str_strip :: "string \<Rightarrow> string \<Rightarrow> string" where
  \<comment> \<open>\<open>word.strip(chars)\<close>\<close>
  "str_strip chars word =
     rev (dropWhile (\<lambda>c. c \<in> set chars) (rev (dropWhile (\<lambda>c. c \<in> set chars) word)))"

fun str_join :: "string \<Rightarrow> string list \<Rightarrow> string" where
  "str_join sep [] = []"
| "str_join sep [w] = w"
| "str_join sep (w # ws) = w @ sep @ str_join sep ws"

definition strip_chars :: string where
  "strip_chars = ''.,;:!?()[]{}'' @ [CHR 0x22, CHR 0x22, CHR 0x27]"

definition stop_words :: "string list" where
  "stop_words =
    [''i'', ''me'', ''my'', ''myself'', ''we'', ''our'', ''ours'', ''ourselves'', ''you'',
     ''your'', ''yours'', ''yourself'', ''yourselves'', ''he'', ''him'', ''his'', ''himself'',
     ''she'', ''her'', ''hers'', ''herself'', ''it'', ''its'', ''itself'', ''they'', ''them'',
     ''their'', ''theirs'', ''themselves'', ''what'', ''which'', ''who'', ''whom'', ''this'',
     ''that'', ''these'', ''those'', ''am'', ''is'', ''are'', ''was'', ''were'', ''be'',
     ''been'', ''being'', ''have'', ''has'', ''had'', ''having'', ''do'', ''does'', ''did'',
     ''doing'', ''a'', ''an'', ''the'', ''and'', ''but'', ''if'', ''or'', ''because'', ''as'',
     ''until'', ''while'', ''of'', ''at'', ''by'', ''for'', ''with'', ''about'', ''against'',
     ''between'', ''into'', ''through'', ''during'', ''before'', ''after'', ''above'',
     ''below'', ''to'', ''from'', ''up'', ''down'', ''in'', ''out'', ''on'', ''off'', ''over'',
     ''under'', ''again'', ''further'', ''then'', ''once'', ''here'', ''there'', ''when'',
     ''where'', ''why'', ''how'', ''all'', ''any'', ''both'', ''each'', ''few'', ''more'',
     ''most'', ''other'', ''some'', ''such'', ''no'', ''nor'', ''not'', ''only'', ''own'',
     ''same'', ''so'', ''than'', ''too'', ''very'', ''s'', ''t'', ''can'', ''will'', ''just'',
     ''don'', ''should'', ''now'']"

definition preprocess_text :: "string \<Rightarrow> string" where
  "preprocess_text text0 =
     (let text = lower text0;
          tokens = filter (\<lambda>clean_word. clean_word \<noteq> [])
                     (map (str_strip strip_chars) (str_split text));
          filtered_tokens =
            filter (\<lambda>word. word \<notin> set stop_words \<and> length word > 1) tokens
      in str_join '' '' filtered_tokens)"

section \<open>Template bank\<close>

definition QUERY_TEMPLATES :: "(string \<times> string list) list" where
  "QUERY_TEMPLATES =
    [(''revenue_query'',
       [''What is the revenue of {company}?'',
        ''Show me {company}'' @ [CHR 0x27] @ ''s revenue'',
        ''Tell me about {company}'' @ [CHR 0x27] @ ''s revenue'',
        ''What'' @ [CHR 0x27] @ ''s the total revenue for {company}?'',
        ''How much revenue did {company} generate?'',
        ''What are the earnings of {company}?'']),
     (''net_income_query'',
       [''What is the net income of {company}?'',
        ''How has {company}'' @ [CHR 0x27] @ ''s net income changed?'',
        ''Tell me about {company}'' @ [CHR 0x27] @ ''s profit'',
        ''What'' @ [CHR 0x27] @ ''s the profit for {company}?'',
        ''How much did {company} earn?'',
        ''What is {company}'' @ [CHR 0x27] @ ''s bottom line?'']),
     (''assets_liabilities_query'',
       [''What are the assets and liabilities of {company}?'',
        ''Tell me about {company}'' @ [CHR 0x27] @ ''s assets'',
        ''What is the debt of {company}?'',
        ''Show me {company}'' @ [CHR 0x27] @ ''s financial position'',
        ''What'' @ [CHR 0x27] @ ''s the balance sheet of {company}?'',
        ''How much does {company} own and owe?'']),
     (''cash_flow_query'',
       [''How has the cash flow of {company} changed?'',
        ''Tell me about {company}'' @ [CHR 0x27] @ ''s cash flow'',
        ''What is the operating cash flow of {company}?'',
        ''Show me {company}'' @ [CHR 0x27] @ ''s cash situation'',
        ''What'' @ [CHR 0x27] @ ''s the cash position for {company}?'',
        ''How much cash is {company} generating from operations?'']),
     (''growth_query'',
       [''What is the revenue growth of {company}?'',
        ''How fast is {company} growing?'',
        ''Tell me about {company}'' @ [CHR 0x27] @ ''s growth'',
        ''What'' @ [CHR 0x27] @ ''s the growth rate for {company}?'',
        ''Is {company} growing year over year?'',
        ''How has {company}'' @ [CHR 0x27] @ ''s size changed over time?'']),
     (''performance_query'',
       [''How is {company} performing?'',
        ''Tell me about {company}'' @ [CHR 0x27] @ ''s performance'',
        ''What'' @ [CHR 0x27] @ ''s the overall financial performance of {company}?'',
        ''How did {company} do financially?'',
        ''Give me an overview of {company}'' @ [CHR 0x27] @ ''s results'',
        ''What are {company}'' @ [CHR 0x27] @ ''s key financial metrics?'']),
     (''comparison_query'',
       [''Compare {company} with other companies'',
        ''How does {company} compare to its peers?'',
        ''Is {company} performing better than others?'',
        ''Show me a comparison of {company} with its competitors'',
        ''What'' @ [CHR 0x27] @ ''s the relative performance of {company}?'',
        ''Is {company} outperforming or underperforming?'']),
     (''trend_query'',
       [''What is the trend in {company}'' @ [CHR 0x27] @ ''s revenue?'',
        ''Show me the trend in {company}'' @ [CHR 0x27] @ ''s performance'',
        ''Has {company}'' @ [CHR 0x27] @ ''s profit been increasing or decreasing?'',
        ''What pattern do you see in {company}'' @ [CHR 0x27] @ ''s financials?'',
        ''Is there a consistent trend in {company}'' @ [CHR 0x27] @ ''s metrics?'',
        ''How have {company}'' @ [CHR 0x27] @ ''s financials evolved over time?'']),
     (''forecast_query'',
       [''What'' @ [CHR 0x27] @ ''s the forecast for {company}?'',
        ''Predict {company}'' @ [CHR 0x27] @ ''s future performance'',
        ''What can we expect from {company} in the future?'',
        ''Show me projections for {company}'',
        ''What'' @ [CHR 0x27] @ ''s the outlook for {company}?'',
        ''How might {company} perform going forward?''])]"

function format_company :: "string \<Rightarrow> string \<Rightarrow> string" where
  \<comment> \<open>\<open>template.format(company=company)\<close> for a template whose only replacement field
      is \<open>{company}\<close>\<close>
  "format_company [] company = []"
| "format_company (c # cs) company =
     (if prefix ''{company}'' (c # cs) then company @ format_company (drop 8 cs) company
      else c # format_company cs company)"
  by pat_completeness auto
termination
  by (relation "measure (\<lambda>(t, c). length t)") auto

definition formatted_templates :: "string \<Rightarrow> (string \<times> string list) list" where
  "formatted_templates company =
     map (\<lambda>(query_type, templates).
            (query_type, map (\<lambda>template. preprocess_text (format_company template company))
                           templates))
         QUERY_TEMPLATES"

section \<open>The similarity engine\<close>

text \<open>
  scikit-learn is an external library. The classifier uses two of its operations, and both
  sit inside the \<open>try\<close> block of the scoring loop, so each may raise:
  \<open>TfidfVectorizer().fit_transform(all_texts)\<close>, and
  \<open>cosine_similarity(tfidf_matrix[0:1], tfidf_matrix[i:i+1])[0][0]\<close>, the similarity of
  row \<open>0\<close> (the query) and row \<open>i\<close> (a template). The engine is a parameter of the model;
  \<open>'m\<close> is the type of the matrix. The flag \<open>SKLEARN_AVAILABLE\<close> and the imported
  functions together are a value of type \<open>'m sklearn_import\<close>.
\<close>

datatype error = PyException string

record 'm sklearn =
  fit_transform :: "string list \<Rightarrow> error + 'm"
  cosine_similarity :: "'m \<Rightarrow> nat \<Rightarrow> error + real"

datatype 'm sklearn_import = Unavailable | Available "'m sklearn"

type_synonym match_state = "string option \<times> real"
  \<comment> \<open>the variables \<open>best_match\<close> and \<open>highest_score\<close>\<close>

fun score_templates ::
  "(nat \<Rightarrow> error + real) \<Rightarrow> string \<Rightarrow> nat list \<Rightarrow> match_state \<Rightarrow> match_state \<times> error option"
where
  \<comment> \<open>\<open>for i in range(1, len(all_texts))\<close>; an exception leaves the loop with the
      variables as they are at that moment\<close>
  "score_templates sim query_type [] st = (st, None)"
| "score_templates sim query_type (i # is) st =
     (case sim i of
        Inl e \<Rightarrow> (st, Some e)
      | Inr similarity \<Rightarrow>
          score_templates sim query_type is
            (if similarity > snd st then (Some query_type, similarity) else st))"

definition try_query_type ::
  "'m sklearn \<Rightarrow> string \<Rightarrow> string \<times> string list \<Rightarrow> match_state \<Rightarrow> match_state \<times> error option"
where
  \<comment> \<open>the body of the \<open>try\<close> block for one query type\<close>
  "try_query_type engine preprocessed_query entry st =
     (case entry of (query_type, templates) \<Rightarrow>
        (let all_texts = preprocessed_query # templates
         in case fit_transform engine all_texts of
              Inl e \<Rightarrow> (st, Some e)
            | Inr tfidf_matrix \<Rightarrow>
                score_templates (cosine_similarity engine tfidf_matrix) query_type
                  [1..<length all_texts] st))"

definition score_query_types ::
  "'m sklearn \<Rightarrow> string \<Rightarrow> (string \<times> string list) list \<Rightarrow> match_state \<Rightarrow> match_state"
where
  \<comment> \<open>the loop over the query types; \<open>except Exception: continue\<close> drops the exception
      and goes on with the next query type\<close>
  "score_query_types engine preprocessed_query formatted st0 =
     fold (\<lambda>entry st. fst (try_query_type engine preprocessed_query entry st)) formatted st0"

section \<open>Intent classifier\<close>

definition truthy :: "string option \<Rightarrow> bool" where
  \<comment> \<open>Python truth value of \<open>best_match\<close>: \<open>None\<close> and the empty string are false\<close>
  "truthy x = (case x of None \<Rightarrow> False | Some s \<Rightarrow> s \<noteq> [])"

definition any_in :: "string list \<Rightarrow> string \<Rightarrow> bool" where
  \<comment> \<open>\<open>any(word in query_lower for word in words)\<close>\<close>
  "any_in words query_lower = list_ex (\<lambda>word. sublist word query_lower) words"

definition keyword_match :: "string \<Rightarrow> real \<Rightarrow> string option \<times> real" where
  \<comment> \<open>the \<open>if\<close>/\<open>elif\<close> chain of the path without scikit-learn; only its last
      branch assigns \<open>confidence\<close>\<close>
  "keyword_match query_lower confidence =
     (if any_in [''revenue'', ''sales'', ''earn''] query_lower then (Some ''revenue_query'', confidence)
      else if any_in [''profit'', ''income'', ''earnings''] query_lower
        then (Some ''net_income_query'', confidence)
      else if any_in [''asset'', ''debt'', ''liability''] query_lower
        then (Some ''assets_liabilities_query'', confidence)
      else if any_in [''cash'', ''flow'', ''liquidity''] query_lower
        then (Some ''cash_flow_query'', confidence)
      else if any_in [''growth'', ''growing'', ''increase''] query_lower
        then (Some ''growth_query'', confidence)
      else if any_in [''performance'', ''overview'', ''summary''] query_lower
        then (Some ''performance_query'', confidence)
      else if any_in [''compare'', ''comparison'', ''versus'', ''vs''] query_lower
        then (Some ''comparison_query'', confidence)
      else if any_in [''trend'', ''pattern'', ''historical''] query_lower
        then (Some ''trend_query'', confidence)
      else if any_in [''forecast'', ''future'', ''predict'', ''projection''] query_lower
        then (Some ''forecast_query'', confidence)
      else (Some ''performance_query'', 0.2))"

record query_info =
  query_type :: "string option"
  confidence :: real
  financial_terms :: terms_dict

definition identify_query_type :: "'m sklearn_import \<Rightarrow> string \<Rightarrow> string \<Rightarrow> query_info" where
  "identify_query_type sk query company =
     (let preprocessed_query = preprocess_text query;
          financial_terms = extract_financial_terms query;
          term_based_match =
            (case financial_terms of [] \<Rightarrow> None | (category, _) # _ \<Rightarrow> Some category);
          (best_match, confidence) =
            (case sk of
               Unavailable \<Rightarrow>
                 (let best_match = term_based_match;
                      confidence = (if truthy best_match then 0.5 else 0.3)
                  in if best_match = None then keyword_match (lower query) confidence
                     else (best_match, confidence))
             | Available engine \<Rightarrow>
                 (let (best_match, highest_score) =
                        score_query_types engine preprocessed_query
                          (formatted_templates company) (None, - 1);
                      best_match = (if best_match = None then term_based_match else best_match);
                      confidence = (if highest_score > 0 then highest_score else 0.3)
                  in (best_match, confidence)));
          (best_match, confidence) =
            (if best_match = None then (Some ''performance_query'', 0.2)
             else (best_match, confidence))
      in \<lparr> query_type = best_match, confidence = confidence,
           financial_terms = financial_terms \<rparr>)"

section \<open>Query analyzer\<close>

definition match_year_at :: "char option \<Rightarrow> string \<Rightarrow> bool" where
  \<comment> \<open>the pattern \<open>\b(20\d{2})\b\<close> at one position\<close>
  "match_year_at prv s =
     (word_boundary prv (head_opt s) \<and>
      (case s of
         a # b # c # d # rest \<Rightarrow>
           a = CHR ''2'' \<and> b = CHR ''0'' \<and> is_digit c \<and> is_digit d \<and>
           word_boundary (Some d) (head_opt rest)
       | _ \<Rightarrow> False))"

function re_findall_year :: "char option \<Rightarrow> string \<Rightarrow> string list" where
  \<comment> \<open>\<open>re.findall(year_pattern, query)\<close>: the matches from left to right, the scan going
      on behind each match\<close>
  "re_findall_year prv [] = []"
| "re_findall_year prv (c # cs) =
     (if match_year_at prv (c # cs)
      then take 4 (c # cs) # re_findall_year (Some (last (take 4 (c # cs)))) (drop 4 (c # cs))
      else re_findall_year (Some c) cs)"
  by pat_completeness auto
termination
  by (relation "measure (\<lambda>(p, s). length s)") auto

record query_analysis = query_info +
  is_comparison :: bool
  is_trend :: bool
  is_forecast :: bool
  time_periods :: "string list"
  metrics :: "string list"

definition analyze_query :: "'m sklearn_import \<Rightarrow> string \<Rightarrow> string \<Rightarrow> query_analysis" where
  "analyze_query sk query company =
     (let query_info = identify_query_type sk query company;
          is_comparison = (''comparison'' \<in> set (dict_keys (financial_terms query_info)));
          is_trend = (''trend'' \<in> set (dict_keys (financial_terms query_info)));
          is_forecast = (''forecast'' \<in> set (dict_keys (financial_terms query_info)));
          years = re_findall_year None query;
          time_periods = (if years \<noteq> [] then years else []);
          financial_terms = financial_terms query_info;
          metrics =
            (if ''revenue'' \<in> set (dict_keys financial_terms) then [''revenue''] else []) @
            (if ''net_income'' \<in> set (dict_keys financial_terms) then [''net_income''] else []) @
            (if ''assets'' \<in> set (dict_keys financial_terms) then [''assets''] else []) @
            (if ''liabilities'' \<in> set (dict_keys financial_terms) then [''liabilities''] else []) @
            (if ''cash_flow'' \<in> set (dict_keys financial_terms) then [''cash_flow''] else [])
      in \<lparr> query_type = query_type query_info,
           confidence = confidence query_info,
           financial_terms = financial_terms,
           is_comparison = is_comparison,
           is_trend = is_trend,
           is_forecast = is_forecast,
           time_periods = time_periods,
           metrics = (if metrics \<noteq> [] then metrics else [''all'']) \<rparr>)"

section \<open>Notions used to state the properties\<close>

text \<open>
  The terms found in a text, computed category by category: each category of the
  configuration with the synonyms that the search finds, in the order of the
  configuration, the categories without a match left out.
\<close>

definition found_terms :: "string \<Rightarrow> (string \<times> string list) list \<Rightarrow> terms_dict" where
  "found_terms text cfg =
     filter (\<lambda>(c, vs). vs \<noteq> [])
       (map (\<lambda>(c, ts). (c, filter (\<lambda>t. re_search_term t None text) ts)) cfg)"

text \<open>
  A phrase occurs in a string as a whole word (whole phrase) when it occurs there with no
  word character directly before it and none directly after it.
\<close>

definition whole_word_in :: "string \<Rightarrow> string \<Rightarrow> bool" where
  "whole_word_in phrase s =
     (\<exists>pre post. s = pre @ phrase @ post \<and>
        (pre = [] \<or> \<not> is_word_char (last pre)) \<and>
        (post = [] \<or> \<not> is_word_char (hd post)))"

definition metric_keys :: "string list" where
  "metric_keys = [''revenue'', ''net_income'', ''assets'', ''liabilities'', ''cash_flow'']"

definition INTENTS :: "string list" where
  \<comment> \<open>the nine intent identifiers, the keys of the template bank\<close>
  "INTENTS = map fst QUERY_TEMPLATES"

definition category_entry :: "string \<Rightarrow> string \<Rightarrow> string list \<Rightarrow> terms_dict" where
  \<comment> \<open>the entry of one category in \<open>found_terms\<close>\<close>
  "category_entry s c ts =
     (if filter (\<lambda>t. re_search_term t None s) ts = [] then []
      else [(c, filter (\<lambda>t. re_search_term t None s) ts)])"

text \<open>
  Position \<open>i\<close> of a query holds a year when the four characters from \<open>i\<close> on are \<open>2\<close>,
  \<open>0\<close> and two decimal digits, the character before them (if any) is not a word
  character, and neither is the character behind them (if any). \<open>year_at_from\<close> takes
  the character left of the string as a parameter.
\<close>

definition year_at_from :: "char option \<Rightarrow> string \<Rightarrow> nat \<Rightarrow> bool" where
  "year_at_from prv q i =
     (i + 4 \<le> length q \<and> q ! i = CHR ''2'' \<and> q ! (i + 1) = CHR ''0'' \<and>
      is_digit (q ! (i + 2)) \<and> is_digit (q ! (i + 3)) \<and>
      \<not> is_word_opt (if i = 0 then prv else Some (q ! (i - 1))) \<and>
      \<not> is_word_opt (if i + 4 = length q then None else Some (q ! (i + 4))))"

definition year_at :: "string \<Rightarrow> nat \<Rightarrow> bool" where
  "year_at q i = year_at_from None q i"

text \<open>The matches of the year pattern at all positions, none skipped.\<close>

fun all_year_matches :: "char option \<Rightarrow> string \<Rightarrow> string list" where
  "all_year_matches prv [] = []"
| "all_year_matches prv (c # cs) =
     (if match_year_at prv (c # cs) then [take 4 (c # cs)] else []) @
     all_year_matches (Some c) cs"


text \<open>
  The scores that the loop compares, in the order in which it meets them: for each query
  type of the bank, none if the vectorizer raises, otherwise the similarities of its
  templates up to the first one whose computation raises.
\<close>

fun scores_before_failure :: "(nat \<Rightarrow> error + real) \<Rightarrow> nat list \<Rightarrow> real list" where
  "scores_before_failure sim [] = []"
| "scores_before_failure sim (i # is) =
     (case sim i of Inl e \<Rightarrow> [] | Inr x \<Rightarrow> x # scores_before_failure sim is)"

definition scored_pairs ::
  "'m sklearn \<Rightarrow> string \<Rightarrow> (string \<times> string list) list \<Rightarrow> (string \<times> real) list" where
  "scored_pairs engine preprocessed_query formatted =
     concat (map (\<lambda>(query_type, templates).
        case fit_transform engine (preprocessed_query # templates) of
          Inl e \<Rightarrow> []
        | Inr m \<Rightarrow> map (Pair query_type)
            (scores_before_failure (cosine_similarity engine m) [1..<Suc (length templates)]))
      formatted)"

definition update_best :: "string \<times> real \<Rightarrow> match_state \<Rightarrow> match_state" where
  "update_best p st = (if snd p > snd st then (Some (fst p), snd p) else st)"

text \<open>The first category found by the extractor, the fallback of the classifier.\<close>

definition term_based_match :: "string \<Rightarrow> string option" where
  "term_based_match query =
     (case extract_financial_terms query of [] \<Rightarrow> None | (category, _) # _ \<Rightarrow> Some category)"

definition similarity_result :: "'m sklearn \<Rightarrow> string \<Rightarrow> string \<Rightarrow> match_state" where
  "similarity_result engine query company =
     fold update_best
       (scored_pairs engine (preprocess_text query) (formatted_templates company)) (None, - 1)"

section \<open>A model of the engine: TF-IDF and cosine similarity\<close>

text \<open>
  The similarity engine is scikit-learn, which is not part of the repository. The
  definitions of this section follow its documented defaults and serve to instantiate the
  engine where a concrete run is evaluated: \<open>TfidfVectorizer()\<close> lower-cases, takes as
  tokens the maximal runs of two or more word characters (\<open>(?u)\b\w\w+\b\<close>), raises on an
  empty vocabulary, weighs a term count by \<open>ln ((1 + n) / (1 + df)) + 1\<close> and scales each
  row to Euclidean norm 1 (a zero row stays zero); \<open>cosine_similarity\<close> scales its rows
  again and multiplies them. The order of the vocabulary does not change a product of
  rows, so the vocabulary is left in order of first appearance. Arithmetic is on real
  numbers, not on floating-point numbers: the scores of this engine are exact, those of
  the library are doubles near them.
\<close>

function word_runs :: "string \<Rightarrow> string list" where
  "word_runs [] = []"
| "word_runs (c # cs) =
     (if is_word_char c
      then takeWhile is_word_char (c # cs) # word_runs (dropWhile is_word_char cs)
      else word_runs cs)"
  by pat_completeness auto
termination
  by (relation "measure length") (auto simp: less_Suc_eq_le length_dropWhile_le)

definition tokenize :: "string \<Rightarrow> string list" where
  "tokenize doc = filter (\<lambda>w. 2 \<le> length w) (word_runs (lower doc))"

definition vocabulary :: "string list \<Rightarrow> string list" where
  "vocabulary docs = remdups (concat (map tokenize docs))"

definition idf :: "string list \<Rightarrow> string \<Rightarrow> real" where
  "idf docs t =
     ln ((1 + real (length docs)) / (1 + real (length (filter (\<lambda>d. t \<in> set (tokenize d)) docs))))
     + 1"

definition dot :: "real list \<Rightarrow> real list \<Rightarrow> real" where
  "dot x y = sum_list (map2 (*) x y)"

definition l2_normalize :: "real list \<Rightarrow> real list" where
  "l2_normalize v = (if sqrt (dot v v) = 0 then v else map (\<lambda>a. a / sqrt (dot v v)) v)"

definition tfidf_row :: "string list \<Rightarrow> string \<Rightarrow> real list" where
  "tfidf_row docs d =
     l2_normalize (map (\<lambda>t. real (count_list (tokenize d) t) * idf docs t) (vocabulary docs))"

definition tfidf_engine :: "real list list sklearn" where
  "tfidf_engine =
     \<lparr> fit_transform = (\<lambda>docs.
          if vocabulary docs = [] then Inl (PyException ''empty vocabulary'')
          else Inr (map (tfidf_row docs) docs)),
       cosine_similarity = (\<lambda>m i.
          if i < length m then Inr (dot (l2_normalize (m ! 0)) (l2_normalize (m ! i)))
          else Inl (PyException ''no samples'')) \<rparr>"

text \<open>
  Engines that fail, to run the scoring loop through its \<open>except\<close> clause. The
  vectorizer of \<open>boom_engine\<close> succeeds on every input; its similarity is \<open>0.5\<close> for the
  first template of a query type and raises for every later one. \<open>faulty_engine\<close> does the
  same, except that its vectorizer raises when the first template is \<open>revenue acme\<close>, the
  first template of \<open>revenue_query\<close> for the company \<open>Acme\<close>.
\<close>

definition boom_engine :: "unit sklearn" where
  "boom_engine =
     \<lparr> fit_transform = (\<lambda>docs. Inr ()),
       cosine_similarity = (\<lambda>m i. if i = 1 then Inr (1 / 2) else Inl (PyException ''boom'')) \<rparr>"

definition faulty_engine :: "unit sklearn" where
  "faulty_engine =
     \<lparr> fit_transform = (\<lambda>docs.
          if take 1 (drop 1 docs) = [''revenue acme''] then Inl (PyException ''failure'')
          else Inr ()),
       cosine_similarity = (\<lambda>m i. if i = 1 then Inr (1 / 2) else Inl (PyException ''boom'')) \<rparr>"

text \<open>
  The library computes in IEEE double precision, so that a score carries a rounding error.
  For the query \<open>How is Acme performing?\<close> and the company \<open>Acme\<close> the first template of
  \<open>performance_query\<close> is the query itself; both rows are \<open>[1, w] / sqrt (1 + w * w)\<close> with
  \<open>w = ln (8 / 3) + 1\<close>, in doubles \<open>[0.45066609966972765, 0.8926925935664948]\<close>, their
  norm rounds to \<open>0.9999999999999999\<close>, and the product of the rows scaled again is
  \<open>1.0000000000000002\<close>, the double next above 1, where the exact value is 1.
  \<open>float_epsilon\<close> is the distance from 1 to that double, and \<open>rounding_engine\<close> is the
  TF-IDF engine with this relative error on each similarity.
\<close>

definition float_epsilon :: real where
  "float_epsilon = 1 / 2 ^ 52"

definition rounding_engine :: "real list list sklearn" where
  "rounding_engine =
     \<lparr> fit_transform = fit_transform tfidf_engine,
       cosine_similarity = (\<lambda>m i.
          case cosine_similarity tfidf_engine m i of
            Inl e \<Rightarrow> Inl e
          | Inr x \<Rightarrow> Inr (x * (1 + float_epsilon))) \<rparr>"

section \<open>Character classes\<close>

lemma of_char_lower_char:
  "(of_char (lower_char c) :: nat) =
     (let n = of_char c in
        if (65 \<le> n \<and> n \<le> 90) \<or> (192 \<le> n \<and> n \<le> 222 \<and> n \<noteq> 215) then n + 32 else n)"
  by (auto simp: lower_char_def Let_def)

lemma is_word_lower_char: "is_word_char (lower_char c) = is_word_char c"
  unfolding is_word_char_def of_char_lower_char Let_def by auto

lemma word_char_not_space: "is_word_char c \<Longrightarrow> \<not> is_space c"
  unfolding is_word_char_def is_space_def Let_def by auto

lemma is_space_lower_char: "is_space c \<Longrightarrow> lower_char c = c"
  unfolding is_space_def lower_char_def Let_def by auto

lemma digit_is_word: "is_digit c \<Longrightarrow> is_word_char c"
  by (auto simp: is_digit_def is_word_char_def Let_def)

lemma word_char_2: "is_word_char CHR ''2''" and word_char_0: "is_word_char CHR ''0''"
  by (simp_all add: is_word_char_def)

section \<open>The search as whole-word occurrence\<close>

lemma re_search_term_iff:
  "re_search_term t prv s \<longleftrightarrow>
     (\<exists>pre post. s = pre @ t @ post \<and>
        word_boundary (last_opt prv pre) (head_opt (t @ post)) \<and>
        word_boundary (last_opt (last_opt prv pre) t) (head_opt post))"
proof (induction s arbitrary: prv)
  case Nil
  show ?case
    by (auto simp: match_term_at_def last_opt_def head_opt_def)
next
  case (Cons c cs)
  have here: "match_term_at t prv (c # cs) \<longleftrightarrow>
      (\<exists>post. c # cs = t @ post \<and>
        word_boundary prv (head_opt (t @ post)) \<and>
        word_boundary (last_opt prv t) (head_opt post))"
    by (auto simp: match_term_at_def prefix_def)
  have later: "re_search_term t (Some c) cs \<longleftrightarrow>
      (\<exists>pre post. c # cs = (c # pre) @ t @ post \<and>
        word_boundary (last_opt prv (c # pre)) (head_opt (t @ post)) \<and>
        word_boundary (last_opt (last_opt prv (c # pre)) t) (head_opt post))"
    unfolding Cons.IH by (auto simp: last_opt_def)
  show ?case (is "?L \<longleftrightarrow> ?R")
  proof
    assume ?L
    then consider "match_term_at t prv (c # cs)" | "re_search_term t (Some c) cs" by auto
    then show ?R
    proof cases
      case 1
      then obtain post where "c # cs = [] @ t @ post"
        "word_boundary (last_opt prv []) (head_opt (t @ post))"
        "word_boundary (last_opt (last_opt prv []) t) (head_opt post)"
        unfolding here by (auto simp: last_opt_def)
      then show ?thesis by blast
    next
      case 2
      then show ?thesis unfolding later by blast
    qed
  next
    assume ?R
    then obtain pre post where R: "c # cs = pre @ t @ post"
        "word_boundary (last_opt prv pre) (head_opt (t @ post))"
        "word_boundary (last_opt (last_opt prv pre) t) (head_opt post)" by blast
    show ?L
    proof (cases pre)
      case Nil
      with R have "match_term_at t prv (c # cs)" unfolding here by (auto simp: last_opt_def)
      then show ?thesis by simp
    next
      case (Cons a pre')
      with R have "a = c" by simp
      with R Cons have "re_search_term t (Some c) cs" unfolding later by blast
      then show ?thesis by simp
    qed
  qed
qed

lemma re_search_whole_word:
  assumes "t \<noteq> []" "is_word_char (hd t)" "is_word_char (last t)"
  shows "re_search_term t None s \<longleftrightarrow> whole_word_in t s"
proof -
  have a: "word_boundary (last_opt None pre) (head_opt (t @ post)) \<longleftrightarrow>
           (pre = [] \<or> \<not> is_word_char (last pre))" for pre post
    using assms by (cases t) (auto simp: word_boundary_def last_opt_def head_opt_def is_word_opt_def)
  have b: "word_boundary (last_opt (last_opt None pre) t) (head_opt post) \<longleftrightarrow>
           (post = [] \<or> \<not> is_word_char (hd post))" for pre post
    using assms by (cases post) (auto simp: word_boundary_def last_opt_def head_opt_def is_word_opt_def)
  show ?thesis unfolding re_search_term_iff whole_word_in_def a b ..
qed

lemma whole_word_in_lower:
  assumes "whole_word_in phrase s"
  shows "whole_word_in (lower phrase) (lower s)"
proof -
  from assms obtain pre post where s: "s = pre @ phrase @ post"
    and pre: "pre = [] \<or> \<not> is_word_char (last pre)"
    and post: "post = [] \<or> \<not> is_word_char (hd post)"
    unfolding whole_word_in_def by blast
  have "lower s = lower pre @ lower phrase @ lower post"
    using s by (simp add: lower_def)
  moreover have "lower pre = [] \<or> \<not> is_word_char (last (lower pre))"
    using pre by (auto simp: lower_def last_map is_word_lower_char)
  moreover have "lower post = [] \<or> \<not> is_word_char (hd (lower post))"
    using post by (auto simp: lower_def hd_map is_word_lower_char)
  ultimately show ?thesis unfolding whole_word_in_def by blast
qed

lemma whole_word_in_set: "whole_word_in t s \<Longrightarrow> set t \<subseteq> set s"
  unfolding whole_word_in_def by auto

lemma lower_spaces: "\<forall>c \<in> set text. is_space c \<Longrightarrow> lower text = text"
  unfolding lower_def by (induction "text") (auto simp: is_space_lower_char)

section \<open>The term extractor, category by category\<close>

text \<open>
  The two nested loops of the extractor build the mapping \<open>found_terms\<close>: the keys of the
  configuration are distinct, so each category is appended once, when its first synonym
  is found, and its later synonyms go to the end of its list.
\<close>

lemma dict_append_fresh:
  "category \<notin> set (dict_keys d) \<Longrightarrow> dict_append d category t = d @ [(category, [t])]"
  unfolding dict_append_def dict_keys_def by (induction d) auto

lemma dict_append_tail:
  "category \<notin> set (dict_keys d) \<Longrightarrow>
   dict_append (d @ [(category, vs)]) category t = d @ [(category, vs @ [t])]"
  unfolding dict_append_def dict_keys_def by (induction d) auto

lemma extract_terms_of_tail:
  "category \<notin> set (dict_keys d) \<Longrightarrow>
   extract_terms_of text category terms (d @ [(category, vs)]) =
     d @ [(category, vs @ filter (\<lambda>t. re_search_term t None text) terms)]"
proof (induction terms arbitrary: vs)
  case Nil
  then show ?case by (simp add: extract_terms_of_def)
next
  case (Cons t ts)
  from Cons.prems Cons.IH [OF Cons.prems] show ?case
    by (simp add: extract_terms_of_def dict_append_tail)
qed

lemma extract_terms_of_fresh:
  "category \<notin> set (dict_keys d) \<Longrightarrow>
   extract_terms_of text category terms d =
     (if filter (\<lambda>t. re_search_term t None text) terms = [] then d
      else d @ [(category, filter (\<lambda>t. re_search_term t None text) terms)])"
proof (induction terms)
  case Nil
  then show ?case by (simp add: extract_terms_of_def)
next
  case (Cons t ts)
  show ?case
  proof (cases "re_search_term t None text")
    case True
    have "extract_terms_of text category (t # ts) d =
          extract_terms_of text category ts (d @ [(category, [t])])"
      using True Cons.prems by (simp add: extract_terms_of_def dict_append_fresh)
    then show ?thesis
      using True extract_terms_of_tail [OF Cons.prems, of "text" ts "[t]"] by simp
  next
    case False
    have "extract_terms_of text category (t # ts) d = extract_terms_of text category ts d"
      using False by (simp add: extract_terms_of_def)
    then show ?thesis using False Cons.IH [OF Cons.prems] by simp
  qed
qed

lemma dict_keys_found_terms: "set (dict_keys (found_terms text cfg)) \<subseteq> fst ` set cfg"
  unfolding found_terms_def dict_keys_def by force

lemma fold_categories:
  "distinct (map fst cfg) \<Longrightarrow> set (dict_keys d) \<inter> fst ` set cfg = {} \<Longrightarrow>
   fold (\<lambda>(category, terms) d. extract_terms_of text category terms d) cfg d =
     d @ found_terms text cfg"
proof (induction cfg arbitrary: d)
  case Nil
  then show ?case by (simp add: found_terms_def)
next
  case (Cons e cfg)
  obtain c ts where e: "e = (c, ts)" by (cases e)
  let ?vs = "filter (\<lambda>t. re_search_term t None text) ts"
  let ?d' = "if ?vs = [] then d else d @ [(c, ?vs)]"
  have fresh: "c \<notin> set (dict_keys d)" using Cons.prems(2) e by auto
  have step: "extract_terms_of text c ts d = ?d'"
    using extract_terms_of_fresh [OF fresh] by simp
  have dist: "distinct (map fst cfg)" using Cons.prems(1) by simp
  have disj: "set (dict_keys ?d') \<inter> fst ` set cfg = {}"
    using Cons.prems e by (auto simp: dict_keys_def)
  show ?case
    using Cons.IH [OF dist disj] step e by (simp add: found_terms_def)
qed

lemma distinct_categories: "distinct (map fst FINANCIAL_TERMS)"
  by (simp add: FINANCIAL_TERMS_def)

lemma extract_financial_terms_eq:
  "extract_financial_terms text = found_terms (lower text) FINANCIAL_TERMS"
  unfolding extract_financial_terms_def Let_def
  using fold_categories [OF distinct_categories, of "[]" "lower text"]
  by (simp add: dict_keys_def)

lemma in_found_terms:
  "(c, vs) \<in> set (found_terms s cfg) \<longleftrightarrow>
     vs \<noteq> [] \<and> (\<exists>ts. (c, ts) \<in> set cfg \<and> vs = filter (\<lambda>t. re_search_term t None s) ts)"
  unfolding found_terms_def by auto

lemma in_extract_financial_terms:
  "(c, vs) \<in> set (extract_financial_terms text) \<longleftrightarrow>
     vs \<noteq> [] \<and>
     (\<exists>ts. (c, ts) \<in> set FINANCIAL_TERMS \<and>
           vs = filter (\<lambda>t. re_search_term t None (lower text)) ts)"
  unfolding extract_financial_terms_eq in_found_terms ..

lemma found_terms_Cons:
  "found_terms s ((c, ts) # cfg) = category_entry s c ts @ found_terms s cfg"
  by (simp add: found_terms_def category_entry_def)

lemma found_terms_Nil: "found_terms s [] = []"
  by (simp add: found_terms_def)

lemma found_terms_config:
  "found_terms s FINANCIAL_TERMS =
     category_entry s ''revenue'' [''revenue'', ''sales'', ''income'', ''earnings'', ''money'',
       ''earn'', ''top line'', ''turnover''] @
     category_entry s ''net_income'' [''net income'', ''profit'', ''earnings'', ''bottom line'',
       ''net earnings'', ''income''] @
     category_entry s ''assets'' [''assets'', ''property'', ''holdings'', ''possessions'',
       ''resources''] @
     category_entry s ''liabilities'' [''liabilities'', ''debt'', ''obligations'', ''payables''] @
     category_entry s ''cash_flow'' [''cash flow'', ''cash'', ''liquidity'', ''funds flow'',
       ''operating cash''] @
     category_entry s ''growth'' [''growth'', ''increase'', ''rise'', ''improvement'',
       ''expansion''] @
     category_entry s ''performance'' [''performance'', ''results'', ''achievements'',
       ''accomplishments'', ''records''] @
     category_entry s ''comparison'' [''compare'', ''comparison'', ''versus'', ''vs'', ''against'',
       ''relative to''] @
     category_entry s ''trend'' [''trend'', ''pattern'', ''direction'', ''movement'',
       ''trajectory'', ''history''] @
     category_entry s ''forecast'' [''forecast'', ''predict'', ''projection'', ''outlook'',
       ''future'', ''expectation'']"
  unfolding FINANCIAL_TERMS_def by (simp only: found_terms_Cons found_terms_Nil append_Nil2)

section \<open>The configured synonyms\<close>

lemma config_terms_wellformed:
  "\<forall>(c, ts) \<in> set FINANCIAL_TERMS. \<forall>t \<in> set ts. t \<noteq> [] \<and> is_word_char (hd t) \<and> is_word_char (last t)"
  by (simp add: FINANCIAL_TERMS_def is_word_char_def)

lemma config_terms_distinct:
  "\<forall>(c, ts) \<in> set FINANCIAL_TERMS. distinct ts"
  by (simp add: FINANCIAL_TERMS_def)

lemma config_keys_nonempty: "\<forall>(c, ts) \<in> set FINANCIAL_TERMS. c \<noteq> []"
  by (simp add: FINANCIAL_TERMS_def)

lemma revenue_in_config: "(''revenue'', [''revenue'', ''sales'', ''income'', ''earnings'', ''money'', ''earn'',
                   ''top line'', ''turnover'']) \<in> set FINANCIAL_TERMS"
  by (simp add: FINANCIAL_TERMS_def)

lemma assets_in_config:
  "(''assets'', ts) \<in> set FINANCIAL_TERMS \<longleftrightarrow>
     ts = [''assets'', ''property'', ''holdings'', ''possessions'', ''resources'']"
  by (auto simp: FINANCIAL_TERMS_def)

lemma net_income_in_config:
  "(''net_income'', [''net income'', ''profit'', ''earnings'', ''bottom line'',
                    ''net earnings'', ''income'']) \<in> set FINANCIAL_TERMS"
  by (simp add: FINANCIAL_TERMS_def)

lemma config_search_whole_word:
  assumes "(c, ts) \<in> set FINANCIAL_TERMS" "t \<in> set ts"
  shows "re_search_term t None s \<longleftrightarrow> whole_word_in t s"
  using config_terms_wellformed assms by (intro re_search_whole_word) auto

lemma category_key_iff:
  "c \<in> set (dict_keys (extract_financial_terms text)) \<longleftrightarrow>
     (\<exists>ts t. (c, ts) \<in> set FINANCIAL_TERMS \<and> t \<in> set ts \<and> re_search_term t None (lower text))"
proof -
  have "c \<in> set (dict_keys (extract_financial_terms text)) \<longleftrightarrow>
        (\<exists>vs. (c, vs) \<in> set (extract_financial_terms text))"
    by (force simp: dict_keys_def)
  also have "\<dots> \<longleftrightarrow> (\<exists>ts. (c, ts) \<in> set FINANCIAL_TERMS \<and>
                 filter (\<lambda>t. re_search_term t None (lower text)) ts \<noteq> [])"
    unfolding in_extract_financial_terms by auto
  also have "\<dots> \<longleftrightarrow> (\<exists>ts t. (c, ts) \<in> set FINANCIAL_TERMS \<and> t \<in> set ts \<and>
                 re_search_term t None (lower text))"
    by (auto simp: filter_empty_conv)
  finally show ?thesis .
qed

section \<open>Evaluating the search on concrete texts\<close>

text \<open>
  The simplifier decides a concrete search fastest when it compares the literal first and
  looks at the word boundaries only where the literal is found.
\<close>

lemma prefix_Cons_if: "prefix (x # xs) (y # ys) = (if x = y then prefix xs ys else False)"
  by simp

lemma match_term_at_if:
  "match_term_at term prv s =
     (if prefix term s
      then word_boundary prv (head_opt s) \<and>
           word_boundary (last_opt prv term) (head_opt (drop (length term) s))
      else False)"
  by (auto simp: match_term_at_def)

lemmas search_eval = match_term_at_if prefix_Cons_if word_boundary_def is_word_opt_def
  is_word_char_def head_opt_def last_opt_def

lemma lower_revenue: "lower ''revenue'' = ''revenue''"
  by (simp add: lower_def lower_char_def)

lemma lower_subassets: "lower ''subassets'' = ''subassets''"
  by (simp add: lower_def lower_char_def)

lemma subassets_no_match:
  "filter (\<lambda>t. re_search_term t None ''subassets'')
     [''assets'', ''property'', ''holdings'', ''possessions'', ''resources''] = []"
  by (simp add: search_eval del: Cons_prefix_Cons)

lemma lower_profit_and_net_income: "lower ''profit and net income'' = ''profit and net income''"
  by (simp add: lower_def lower_char_def)

lemma profit_and_net_income_matches:
  "filter (\<lambda>t. re_search_term t None ''profit and net income'')
     [''net income'', ''profit'', ''earnings'', ''bottom line'', ''net earnings'', ''income'']
   = [''net income'', ''profit'', ''income'']"
  by (simp add: search_eval del: Cons_prefix_Cons)

lemma lower_debt: "lower ''debt'' = ''debt''"
  by (simp add: lower_def lower_char_def)

lemma extract_debt: "extract_financial_terms ''debt'' = [(''liabilities'', [''debt''])]"
  unfolding extract_financial_terms_eq lower_debt
  by (simp add: search_eval found_terms_config category_entry_def del: Cons_prefix_Cons)

lemma lower_acme_profit: "lower ''Acme profit'' = ''acme profit''"
  by (simp add: lower_def lower_char_def char_of_eq_iff)

lemma extract_acme_profit:
  "extract_financial_terms ''Acme profit'' = [(''net_income'', [''profit''])]"
  unfolding extract_financial_terms_eq lower_acme_profit
  by (simp add: search_eval found_terms_config category_entry_def del: Cons_prefix_Cons)

lemma lower_revenue_question: "lower ''What is the revenue of Acme?'' = ''what is the revenue of acme?''"
  by (simp add: lower_def lower_char_def char_of_eq_iff)

lemma revenue_found_in_question: "re_search_term ''revenue'' None ''what is the revenue of acme?''"
  by (simp add: search_eval del: Cons_prefix_Cons)

section \<open>Claims about the term extractor\<close>

lemma recorded_term_iff:
  "(\<exists>vs. (category, vs) \<in> set (extract_financial_terms text) \<and> term \<in> set vs) \<longleftrightarrow>
   (\<exists>terms. (category, terms) \<in> set FINANCIAL_TERMS \<and> term \<in> set terms \<and>
            whole_word_in term (lower text))"
proof
  assume "\<exists>vs. (category, vs) \<in> set (extract_financial_terms text) \<and> term \<in> set vs"
  then obtain ts where ts: "(category, ts) \<in> set FINANCIAL_TERMS"
    and "term \<in> set (filter (\<lambda>t. re_search_term t None (lower text)) ts)"
    unfolding in_extract_financial_terms by blast
  then have "term \<in> set ts" "re_search_term term None (lower text)" by auto
  then show "\<exists>terms. (category, terms) \<in> set FINANCIAL_TERMS \<and> term \<in> set terms \<and>
             whole_word_in term (lower text)"
    using ts config_search_whole_word by blast
next
  assume "\<exists>terms. (category, terms) \<in> set FINANCIAL_TERMS \<and> term \<in> set terms \<and>
             whole_word_in term (lower text)"
  then obtain ts where ts: "(category, ts) \<in> set FINANCIAL_TERMS" "term \<in> set ts"
    and "whole_word_in term (lower text)" by blast
  then have "re_search_term term None (lower text)"
    using config_search_whole_word by blast
  then have "term \<in> set (filter (\<lambda>t. re_search_term t None (lower text)) ts)"
    using ts by simp
  moreover from this have "filter (\<lambda>t. re_search_term t None (lower text)) ts \<noteq> []"
    by force
  ultimately show "\<exists>vs. (category, vs) \<in> set (extract_financial_terms text) \<and> term \<in> set vs"
    unfolding in_extract_financial_terms using ts by blast
qed

lemma recorded_category_iff:
  "category \<in> set (dict_keys (extract_financial_terms text)) \<longleftrightarrow>
   (\<exists>terms term. (category, terms) \<in> set FINANCIAL_TERMS \<and> term \<in> set terms \<and>
            whole_word_in term (lower text))"
  unfolding category_key_iff using config_search_whole_word by blast

lemma recorded_nonempty: "(category, vs) \<in> set (extract_financial_terms text) \<Longrightarrow> vs \<noteq> []"
  using in_extract_financial_terms by blast

lemma revenue_recorded:
  assumes "whole_word_in ''revenue'' text"
  shows "''revenue'' \<in> set (dict_keys (extract_financial_terms text))"
proof -
  have "whole_word_in ''revenue'' (lower text)"
    using whole_word_in_lower [OF assms] by (simp add: lower_revenue)
  then show ?thesis
    unfolding recorded_category_iff using revenue_in_config by (intro exI conjI) auto
qed

lemma no_terms_in_spaces:
  assumes sp: "\<forall>c \<in> set text. is_space c"
  shows "extract_financial_terms text = []"
proof -
  have nomatch: "\<not> whole_word_in t (lower text)"
    if "(c, ts) \<in> set FINANCIAL_TERMS" "t \<in> set ts" for c ts t
  proof
    assume "whole_word_in t (lower text)"
    then have "set t \<subseteq> set text"
      using whole_word_in_set [of t "lower text"] lower_spaces [OF sp] by simp
    moreover have wf: "t \<noteq> []" "is_word_char (hd t)"
      using config_terms_wellformed that by auto
    then have "hd t \<in> set t" by simp
    ultimately have "hd t \<in> set text" by blast
    then have "is_space (hd t)" using sp by blast
    then show False using wf word_char_not_space by blast
  qed
  have nokey: "c \<notin> set (dict_keys (extract_financial_terms text))" for c
    unfolding recorded_category_iff using nomatch by blast
  show ?thesis
  proof (rule ccontr)
    assume "extract_financial_terms text \<noteq> []"
    then obtain e rest where "extract_financial_terms text = e # rest"
      using list.exhaust by blast
    then have "fst e \<in> set (dict_keys (extract_financial_terms text))"
      by (simp add: dict_keys_def)
    then show False using nokey by blast
  qed
qed

lemma subassets_not_assets:
  "''assets'' \<notin> set (dict_keys (extract_financial_terms ''subassets''))"
proof
  assume "''assets'' \<in> set (dict_keys (extract_financial_terms ''subassets''))"
  then obtain t where "t \<in> set [''assets'', ''property'', ''holdings'', ''possessions'', ''resources'']"
    "re_search_term t None ''subassets''"
    unfolding category_key_iff lower_subassets assets_in_config by blast
  then have "t \<in> set (filter (\<lambda>t. re_search_term t None ''subassets'')
     [''assets'', ''property'', ''holdings'', ''possessions'', ''resources''])"
    by (simp only: set_filter mem_Collect_eq)
  then show False by (simp only: subassets_no_match list.set empty_iff)
qed

lemma extract_empty: "extract_financial_terms [] = []"
  using no_terms_in_spaces [of "[]"] by simp

text \<open>
  Claim C6. For every input text: a synonym is recorded under its category exactly when it
  is a synonym of that category in the configuration and occurs in the lower-cased text as
  a whole word (whole phrase), no word character directly before or after it; a category
  is a key of the result exactly when one of its synonyms occurs so; no category is
  present with an empty list; a text that contains \<open>revenue\<close> as a whole word yields the
  key \<open>revenue\<close>; a text made of white space only (the empty text included) yields the
  empty mapping; and \<open>assets\<close> is not found inside \<open>subassets\<close>.
\<close>

theorem extract_terms_whole_word:
  "(\<forall>category term.
      (\<exists>vs. (category, vs) \<in> set (extract_financial_terms text) \<and> term \<in> set vs) \<longleftrightarrow>
      (\<exists>terms. (category, terms) \<in> set FINANCIAL_TERMS \<and> term \<in> set terms \<and>
               whole_word_in term (lower text))) \<and>
   (\<forall>category.
      category \<in> set (dict_keys (extract_financial_terms text)) \<longleftrightarrow>
      (\<exists>terms term. (category, terms) \<in> set FINANCIAL_TERMS \<and> term \<in> set terms \<and>
               whole_word_in term (lower text))) \<and>
   (\<forall>(category, vs) \<in> set (extract_financial_terms text). vs \<noteq> []) \<and>
   (whole_word_in ''revenue'' text \<longrightarrow>
      ''revenue'' \<in> set (dict_keys (extract_financial_terms text))) \<and>
   ((\<forall>c \<in> set text. is_space c) \<longrightarrow> extract_financial_terms text = []) \<and>
   ''assets'' \<notin> set (dict_keys (extract_financial_terms ''subassets''))"
proof (intro conjI allI impI)
  show "\<forall>(category, vs) \<in> set (extract_financial_terms text). vs \<noteq> []"
    using recorded_nonempty by blast
qed (rule recorded_term_iff recorded_category_iff revenue_recorded no_terms_in_spaces
       subassets_not_assets, assumption?)+

theorem extract_terms_whole_word_witness:
  "whole_word_in ''revenue'' ''Acme revenue 2023'' \<and>
   ''revenue'' \<in> set (dict_keys (extract_financial_terms ''Acme revenue 2023'')) \<and>
   is_space CHR '' '' \<and> is_space (CHR 0x09) \<and>
   extract_financial_terms [CHR '' '', CHR 0x09] = []"
proof -
  have w: "whole_word_in ''revenue'' ''Acme revenue 2023''"
    unfolding whole_word_in_def
    by (rule exI [of _ "''Acme ''"], rule exI [of _ "'' 2023''"]) (simp add: is_word_char_def)
  have sp: "\<forall>c \<in> set [CHR '' '', CHR 0x09]. is_space c"
    by (simp add: is_space_def)
  note thm1 = extract_terms_whole_word [of "''Acme revenue 2023''"]
  note thm2 = extract_terms_whole_word [of "[CHR '' '', CHR 0x09]"]
  from thm1 w have "''revenue'' \<in> set (dict_keys (extract_financial_terms ''Acme revenue 2023''))"
    by blast
  moreover from thm2 sp have "extract_financial_terms [CHR '' '', CHR 0x09] = []"
    by blast
  ultimately show ?thesis using w sp by simp
qed

text \<open>
  Claim C10. For every input text, every entry of the returned mapping has a non-empty
  list, without repetitions, and the list is made of the synonyms of the entry's category
  in the order of the configured synonym list (it is that list restricted to the synonyms
  recorded), whatever their order of appearance in the text.
\<close>

theorem extracted_lists_follow_configuration:
  "\<forall>(category, vs) \<in> set (extract_financial_terms text).
      vs \<noteq> [] \<and> distinct vs \<and>
      (\<exists>terms. (category, terms) \<in> set FINANCIAL_TERMS \<and>
               vs = filter (\<lambda>t. t \<in> set vs) terms)"
proof (intro ballI, clarify)
  fix category vs
  assume "(category, vs) \<in> set (extract_financial_terms text)"
  then obtain ts where ne: "vs \<noteq> []" and ts: "(category, ts) \<in> set FINANCIAL_TERMS"
    and vs: "vs = filter (\<lambda>t. re_search_term t None (lower text)) ts"
    unfolding in_extract_financial_terms by blast
  have "distinct ts" using config_terms_distinct ts by blast
  then have d: "distinct vs" using vs by simp
  have "filter (\<lambda>t. t \<in> set vs) ts = vs"
    unfolding vs by (rule filter_cong) auto
  with ne d ts
  show "vs \<noteq> [] \<and> distinct vs \<and>
      (\<exists>terms. (category, terms) \<in> set FINANCIAL_TERMS \<and> vs = filter (\<lambda>t. t \<in> set vs) terms)"
    by metis
qed

theorem extracted_lists_follow_configuration_witness:
  "(''net_income'', [''net income'', ''profit'', ''income''])
     \<in> set (extract_financial_terms ''profit and net income'') \<and>
   distinct [''net income'', ''profit'', ''income''] \<and>
   (\<exists>terms. (''net_income'', terms) \<in> set FINANCIAL_TERMS \<and>
      [''net income'', ''profit'', ''income''] =
        filter (\<lambda>t. t \<in> set [''net income'', ''profit'', ''income'']) terms)"
proof -
  have e: "\<exists>ts. (''net_income'', ts) \<in> set FINANCIAL_TERMS \<and>
      [''net income'', ''profit'', ''income''] =
        filter (\<lambda>t. re_search_term t None ''profit and net income'') ts"
    using net_income_in_config profit_and_net_income_matches [symmetric] by blast
  have ne: "[''net income'', ''profit'', ''income''] \<noteq> []" by simp
  have m: "(''net_income'', [''net income'', ''profit'', ''income''])
     \<in> set (extract_financial_terms ''profit and net income'')"
    unfolding in_extract_financial_terms lower_profit_and_net_income
    using e ne by blast
  from extracted_lists_follow_configuration [of "''profit and net income''"] m
  show ?thesis by blast
qed

section \<open>The fields of the analysis\<close>

lemma identify_financial_terms:
  "financial_terms (identify_query_type sk query company) = extract_financial_terms query"
  by (simp add: identify_query_type_def Let_def split: prod.splits)

lemma analyze_financial_terms:
  "financial_terms (analyze_query sk query company) = extract_financial_terms query"
  by (simp add: analyze_query_def Let_def identify_financial_terms)

lemma analyze_query_type:
  "query_type (analyze_query sk query company) = query_type (identify_query_type sk query company)"
  by (simp add: analyze_query_def Let_def)

lemma analyze_confidence:
  "confidence (analyze_query sk query company) = confidence (identify_query_type sk query company)"
  by (simp add: analyze_query_def Let_def)

lemma analyze_time_periods:
  "time_periods (analyze_query sk query company) = re_findall_year None query"
  by (simp add: analyze_query_def Let_def)

lemma analyze_flags:
  "is_comparison (analyze_query sk query company) \<longleftrightarrow>
     ''comparison'' \<in> set (dict_keys (extract_financial_terms query))"
  "is_trend (analyze_query sk query company) \<longleftrightarrow>
     ''trend'' \<in> set (dict_keys (extract_financial_terms query))"
  "is_forecast (analyze_query sk query company) \<longleftrightarrow>
     ''forecast'' \<in> set (dict_keys (extract_financial_terms query))"
  by (simp_all add: analyze_query_def Let_def identify_financial_terms)

lemma analyze_metrics:
  "metrics (analyze_query sk query company) =
     (if filter (\<lambda>k. k \<in> set (dict_keys (extract_financial_terms query))) metric_keys = []
      then [''all'']
      else filter (\<lambda>k. k \<in> set (dict_keys (extract_financial_terms query))) metric_keys)"
  by (simp add: analyze_query_def Let_def identify_financial_terms metric_keys_def)

lemma all_not_metric_key: "''all'' \<notin> set metric_keys"
  by (simp add: metric_keys_def)

lemma analyze_metrics_nonempty: "metrics (analyze_query sk query company) \<noteq> []"
  unfolding analyze_metrics by simp

text \<open>
  Claim C4. For every query and company, on either path: \<open>financial_terms\<close> is the
  extractor's mapping for the query; \<open>metrics\<close> is \<open>["all"]\<close> exactly when none of the five
  metric keys is a key of it, and otherwise it is the list of the metric keys present, in
  the order revenue, net_income, assets, liabilities, cash_flow; each of the three flags
  holds exactly when its category is a key. The right-hand sides mention the query only,
  so the flags and the metrics do not depend on the intent or on the path taken.
\<close>

theorem metrics_and_flags:
  "financial_terms (analyze_query sk query company) = extract_financial_terms query \<and>
   (metrics (analyze_query sk query company) = [''all''] \<longleftrightarrow>
      (\<forall>k \<in> set metric_keys. k \<notin> set (dict_keys (extract_financial_terms query)))) \<and>
   ((\<exists>k \<in> set metric_keys. k \<in> set (dict_keys (extract_financial_terms query))) \<longrightarrow>
      metrics (analyze_query sk query company) =
        filter (\<lambda>k. k \<in> set (dict_keys (extract_financial_terms query))) metric_keys) \<and>
   (is_comparison (analyze_query sk query company) \<longleftrightarrow>
      ''comparison'' \<in> set (dict_keys (extract_financial_terms query))) \<and>
   (is_trend (analyze_query sk query company) \<longleftrightarrow>
      ''trend'' \<in> set (dict_keys (extract_financial_terms query))) \<and>
   (is_forecast (analyze_query sk query company) \<longleftrightarrow>
      ''forecast'' \<in> set (dict_keys (extract_financial_terms query)))"
proof -
  let ?f = "filter (\<lambda>k. k \<in> set (dict_keys (extract_financial_terms query))) metric_keys"
  have none: "?f = [] \<longleftrightarrow>
      (\<forall>k \<in> set metric_keys. k \<notin> set (dict_keys (extract_financial_terms query)))"
    by (simp add: filter_empty_conv)
  have "?f \<noteq> [''all'']"
  proof
    assume "?f = [''all'']"
    then have "''all'' \<in> set ?f" by simp
    then show False using all_not_metric_key by simp
  qed
  then have a: "metrics (analyze_query sk query company) = [''all''] \<longleftrightarrow> ?f = []"
    unfolding analyze_metrics by auto
  have b: "?f \<noteq> [] \<Longrightarrow> metrics (analyze_query sk query company) = ?f"
    unfolding analyze_metrics by simp
  show ?thesis
    using a b none analyze_flags [of sk query company] analyze_financial_terms [of sk query company]
    by blast
qed

theorem metrics_and_flags_witness:
  "metrics (analyze_query (Unavailable :: unit sklearn_import) ''debt'' ''Acme'') = [''liabilities'']
   \<and> \<not> is_comparison (analyze_query (Unavailable :: unit sklearn_import) ''debt'' ''Acme'')"
  using metrics_and_flags [of "Unavailable :: unit sklearn_import" "''debt''" "''Acme''"]
  by (simp add: extract_debt dict_keys_def metric_keys_def)

section \<open>The years of a query\<close>

text \<open>
  A match of the year pattern ends on a digit, so no match starts inside it or directly
  behind it: the scan that goes on behind each match finds the matches of all positions.
\<close>

lemma match_year_at_iff: "match_year_at prv s \<longleftrightarrow> year_at_from prv s 0"
proof (cases s)
  case Nil
  then show ?thesis by (simp add: match_year_at_def year_at_from_def)
next
  case (Cons a s1)
  show ?thesis
  proof (cases s1)
    case Nil
    with Cons show ?thesis by (simp add: match_year_at_def year_at_from_def)
  next
    case (Cons b s2)
    note s1 = this
    show ?thesis
    proof (cases s2)
      case Nil
      with s1 \<open>s = a # s1\<close> show ?thesis by (simp add: match_year_at_def year_at_from_def)
    next
      case (Cons c s3)
      note s2 = this
      show ?thesis
      proof (cases s3)
        case Nil
        with s2 s1 \<open>s = a # s1\<close> show ?thesis by (simp add: match_year_at_def year_at_from_def)
      next
        case (Cons d rest)
        with s2 s1 \<open>s = a # s1\<close> have s: "s = a # b # c # d # rest" by simp
        show ?thesis
          unfolding s
          by (cases rest)
             (auto simp: match_year_at_def year_at_from_def word_boundary_def head_opt_def
                is_word_opt_def word_char_2 digit_is_word split: option.splits)
      qed
    qed
  qed
qed

lemma no_year_after_word_char:
  "is_word_char c \<Longrightarrow> \<not> match_year_at (Some c) s"
  by (simp add: match_year_at_iff year_at_from_def is_word_opt_def)

lemma all_year_matches_skip:
  assumes "match_year_at prv (a # s)"
  shows "all_year_matches (Some a) s = all_year_matches (Some (last (take 4 (a # s)))) (drop 4 (a # s))"
proof -
  from assms obtain b c d rest where s: "s = b # c # d # rest"
    and a: "a = CHR ''2''" and b: "b = CHR ''0''" and c: "is_digit c" and d: "is_digit d"
    by (auto simp: match_year_at_def split: list.splits)
  show ?thesis
    unfolding s using a b c d
    by (simp add: no_year_after_word_char word_char_2 word_char_0 digit_is_word)
qed

lemma re_findall_year_all: "re_findall_year prv s = all_year_matches prv s"
proof (induction prv s rule: re_findall_year.induct)
  case (1 prv)
  show ?case by simp
next
  case (2 prv c cs)
  show ?case
  proof (cases "match_year_at prv (c # cs)")
    case True
    then show ?thesis
      using 2(1) all_year_matches_skip [OF True] by simp
  next
    case False
    then show ?thesis using 2(2) by simp
  qed
qed

lemma year_at_from_Suc: "year_at_from prv (c # cs) (Suc i) = year_at_from (Some c) cs i"
  by (cases i) (auto simp: year_at_from_def)

lemma all_year_matches_positions:
  "all_year_matches prv s =
     map (\<lambda>i. take 4 (drop i s)) (filter (year_at_from prv s) [0..<length s])"
proof (induction s arbitrary: prv)
  case Nil
  show ?case by simp
next
  case (Cons c cs)
  have "[0..<Suc (length cs)] = 0 # [Suc 0..<Suc (length cs)]"
    by (rule upt_conv_Cons) simp
  then have upt: "[0..<length (c # cs)] = 0 # map Suc [0..<length cs]"
    by (simp add: map_Suc_upt)
  have "map (\<lambda>i. take 4 (drop i (c # cs))) (filter (year_at_from prv (c # cs)) [0..<length (c # cs)])
      = (if year_at_from prv (c # cs) 0 then [take 4 (c # cs)] else []) @
        map (\<lambda>i. take 4 (drop i cs)) (filter (year_at_from (Some c) cs) [0..<length cs])"
    unfolding upt by (simp add: filter_map comp_def year_at_from_Suc)
  then show ?case
    using Cons.IH [of "Some c"] by (simp add: match_year_at_iff)
qed

lemma re_findall_year_positions:
  "re_findall_year None q = map (\<lambda>i. take 4 (drop i q)) (filter (year_at q) [0..<length q])"
  unfolding re_findall_year_all all_year_matches_positions year_at_def ..

lemmas year_eval = match_year_at_def word_boundary_def is_word_opt_def is_word_char_def
  is_digit_def head_opt_def

lemma findall_compare: "re_findall_year None ''Compare 2022 and 2022'' = [''2022'', ''2022'']"
  by (simp add: year_eval)

lemma findall_FY2023: "re_findall_year None ''FY2023'' = []"
  by (simp add: year_eval)

text \<open>
  Claim C5, as amended. For every query, \<open>time_periods\<close> lists, from left to right and
  with repetitions kept, the substrings at the positions that hold a year: \<open>20\<close> followed
  by two decimal digits, with no word character directly before or behind the four
  characters. (The claim as stated, every four-digit substring that starts with \<open>20\<close>,
  fails where the digits touch a letter, a digit or an underscore.)
\<close>

theorem time_periods_years:
  "time_periods (analyze_query sk query company) =
     map (\<lambda>i. take 4 (drop i query)) (filter (year_at query) [0..<length query])"
  unfolding analyze_time_periods by (rule re_findall_year_positions)

theorem time_periods_years_witness:
  "time_periods (analyze_query (Unavailable :: unit sklearn_import) ''Compare 2022 and 2022'' ''Acme'')
     = [''2022'', ''2022''] \<and>
   map (\<lambda>i. take 4 (drop i ''Compare 2022 and 2022''))
     (filter (year_at ''Compare 2022 and 2022'') [0..<length ''Compare 2022 and 2022''])
     = [''2022'', ''2022'']"
  using time_periods_years [of "Unavailable :: unit sklearn_import" "''Compare 2022 and 2022''" "''Acme''"]
  by (simp only: analyze_time_periods findall_compare simp_thms)

theorem time_periods_counterexample:
  "sublist ''2023'' ''FY2023'' \<and>
   ''2023'' \<notin> set (time_periods (analyze_query (Unavailable :: unit sklearn_import) ''FY2023'' ''Acme''))"
proof -
  have "''FY2023'' = ''FY'' @ ''2023'' @ []" by simp
  then have "sublist ''2023'' ''FY2023''" unfolding sublist_def by blast
  moreover have "time_periods (analyze_query (Unavailable :: unit sklearn_import) ''FY2023'' ''Acme'') = []"
    by (simp only: analyze_time_periods findall_FY2023)
  ultimately show ?thesis by simp
qed

section \<open>The scoring loop as a fold over the scores\<close>

lemma score_templates_fold:
  "fst (score_templates sim qt is st) =
     fold update_best (map (Pair qt) (scores_before_failure sim is)) st"
  by (induction "is" arbitrary: st) (auto simp: update_best_def split: sum.splits)

lemma try_query_type_fold:
  "fst (try_query_type engine pq (qt, templates) st) =
     fold update_best
       (case fit_transform engine (pq # templates) of
          Inl e \<Rightarrow> []
        | Inr m \<Rightarrow> map (Pair qt)
            (scores_before_failure (cosine_similarity engine m) [1..<Suc (length templates)]))
       st"
  by (simp add: try_query_type_def Let_def score_templates_fold split: sum.splits)

lemma score_query_types_fold:
  "score_query_types engine pq formatted st =
     fold update_best (scored_pairs engine pq formatted) st"
proof (induction formatted arbitrary: st)
  case Nil
  show ?case by (simp add: score_query_types_def scored_pairs_def)
next
  case (Cons entry formatted)
  obtain qt templates where e: "entry = (qt, templates)" by (cases entry)
  have "score_query_types engine pq (entry # formatted) st =
        score_query_types engine pq formatted (fst (try_query_type engine pq entry st))"
    by (simp add: score_query_types_def)
  also have "\<dots> = fold update_best (scored_pairs engine pq formatted)
                     (fst (try_query_type engine pq entry st))"
    by (rule Cons.IH)
  finally show ?case
    unfolding e try_query_type_fold by (simp add: scored_pairs_def)
qed

lemma fold_update_below:
  "\<forall>p \<in> set ps. snd p \<le> snd st \<Longrightarrow> fold update_best ps st = st"
  by (induction ps) (auto simp: update_best_def)

lemma fold_update_less:
  "\<forall>p \<in> set ps. snd p < m \<Longrightarrow> snd st < m \<Longrightarrow> snd (fold update_best ps st) < m"
  by (induction ps arbitrary: st) (auto simp: update_best_def)

lemma fold_update_first_max:
  assumes "\<forall>p \<in> set xs. snd p < m" "snd st < m" "\<forall>p \<in> set ys. snd p \<le> m"
  shows "fold update_best (xs @ (qt, m) # ys) st = (Some qt, m)"
proof -
  have "snd (fold update_best xs st) < m"
    using assms(1,2) by (rule fold_update_less)
  then have "update_best (qt, m) (fold update_best xs st) = (Some qt, m)"
    by (simp add: update_best_def)
  then show ?thesis using assms(3) by (simp add: fold_update_below)
qed

lemma fold_update_le:
  "\<forall>p \<in> set ps. snd p \<le> b \<Longrightarrow> snd st \<le> b \<Longrightarrow> snd (fold update_best ps st) \<le> b"
  by (induction ps arbitrary: st) (auto simp: update_best_def)

lemma fold_update_ge: "snd st \<le> snd (fold update_best ps st)"
proof (induction ps arbitrary: st)
  case Nil
  show ?case by simp
next
  case (Cons p ps)
  have "snd st \<le> snd (update_best p st)" by (simp add: update_best_def)
  also have "\<dots> \<le> snd (fold update_best ps (update_best p st))" by (rule Cons.IH)
  finally show ?case by simp
qed

lemma fold_update_ge_scores: "\<forall>p \<in> set ps. snd p \<le> snd (fold update_best ps st)"
proof (induction ps arbitrary: st)
  case Nil
  show ?case by simp
next
  case (Cons p ps)
  have "snd p \<le> snd (update_best p st)" by (simp add: update_best_def)
  also have "\<dots> \<le> snd (fold update_best ps (update_best p st))" by (rule fold_update_ge)
  finally have "snd p \<le> snd (fold update_best (p # ps) st)" by simp
  then show ?case using Cons.IH [of "update_best p st"] by simp
qed

lemma fold_update_result:
  "fold update_best ps st = st \<or>
   (\<exists>p \<in> set ps. fold update_best ps st = (Some (fst p), snd p) \<and> snd st < snd p)"
proof (induction ps arbitrary: st)
  case Nil
  show ?case by simp
next
  case (Cons p ps)
  show ?case
  proof (cases "snd p > snd st")
    case True
    then have u: "update_best p st = (Some (fst p), snd p)" by (simp add: update_best_def)
    from Cons.IH [of "update_best p st"] show ?thesis
    proof
      assume "fold update_best ps (update_best p st) = update_best p st"
      then show ?thesis using u True by simp
    next
      assume "\<exists>q \<in> set ps. fold update_best ps (update_best p st) = (Some (fst q), snd q) \<and>
                snd (update_best p st) < snd q"
      then obtain q where "q \<in> set ps"
        "fold update_best ps (update_best p st) = (Some (fst q), snd q)" "snd p < snd q"
        using u by auto
      then show ?thesis using True by auto
    qed
  next
    case False
    then have u: "update_best p st = st" by (simp add: update_best_def)
    from Cons.IH [of st] show ?thesis using u by auto
  qed
qed

lemma scores_before_failure_set:
  "x \<in> set (scores_before_failure sim is) \<Longrightarrow> \<exists>i \<in> set is. sim i = Inr x"
  by (induction "is") (auto split: sum.splits)

lemma scored_pairs_origin:
  assumes "p \<in> set (scored_pairs engine pq formatted)"
  shows "\<exists>templates m i. (fst p, templates) \<in> set formatted \<and>
           fit_transform engine (pq # templates) = Inr m \<and>
           cosine_similarity engine m i = Inr (snd p)"
proof -
  from assms obtain qt templates where e: "(qt, templates) \<in> set formatted"
    and p: "p \<in> set (case fit_transform engine (pq # templates) of
          Inl e \<Rightarrow> []
        | Inr m \<Rightarrow> map (Pair qt)
            (scores_before_failure (cosine_similarity engine m) [1..<Suc (length templates)]))"
    unfolding scored_pairs_def by auto
  from p obtain m where m: "fit_transform engine (pq # templates) = Inr m"
    and "p \<in> Pair qt ` set (scores_before_failure (cosine_similarity engine m)
                               [1..<Suc (length templates)])"
    by (cases "fit_transform engine (pq # templates)") auto
  then obtain x where "p = (qt, x)"
    and "x \<in> set (scores_before_failure (cosine_similarity engine m) [1..<Suc (length templates)])"
    by auto
  then show ?thesis using e m scores_before_failure_set by fastforce
qed

section \<open>The classifier on its two paths\<close>

lemma term_based_match_truthy: "term_based_match query = Some k \<Longrightarrow> k \<noteq> []"
proof -
  assume "term_based_match query = Some k"
  then have "k \<in> set (dict_keys (extract_financial_terms query))"
    by (auto simp: term_based_match_def dict_keys_def split: list.splits)
  then have "k \<in> fst ` set FINANCIAL_TERMS"
    unfolding extract_financial_terms_eq using dict_keys_found_terms by blast
  then show ?thesis using config_keys_nonempty by auto
qed

lemma term_based_match_category:
  "term_based_match query = Some k \<Longrightarrow> k \<in> set (map fst FINANCIAL_TERMS)"
proof -
  assume "term_based_match query = Some k"
  then have "k \<in> set (dict_keys (extract_financial_terms query))"
    by (auto simp: term_based_match_def dict_keys_def split: list.splits)
  then show ?thesis
    unfolding extract_financial_terms_eq using dict_keys_found_terms by fastforce
qed

lemma term_based_match_revenue:
  assumes "t \<in> set [''revenue'', ''sales'', ''income'', ''earnings'', ''money'', ''earn'',
                     ''top line'', ''turnover'']"
    and "re_search_term t None (lower query)"
  shows "term_based_match query = Some ''revenue''"
proof -
  let ?ts = "[''revenue'', ''sales'', ''income'', ''earnings'', ''money'', ''earn'',
              ''top line'', ''turnover'']"
  have "t \<in> set (filter (\<lambda>t. re_search_term t None (lower query)) ?ts)"
    using assms by (simp only: set_filter mem_Collect_eq)
  then have "filter (\<lambda>t. re_search_term t None (lower query)) ?ts \<noteq> []"
    by (metis empty_iff list.set(1))
  then have "category_entry (lower query) ''revenue'' ?ts =
      [(''revenue'', filter (\<lambda>t. re_search_term t None (lower query)) ?ts)]"
    by (simp only: category_entry_def if_False)
  then show ?thesis
    unfolding term_based_match_def extract_financial_terms_eq found_terms_config
    by (simp only: append_Cons append_Nil list.case prod.case)
qed

lemma term_based_match_empty: "term_based_match [] = None"
  by (simp add: term_based_match_def extract_empty)

lemma keyword_match_Some: "fst (keyword_match ql conf) \<noteq> None"
  by (simp add: keyword_match_def)

lemma keyword_match_confidence: "snd (keyword_match ql conf) = conf \<or> snd (keyword_match ql conf) = 0.2"
  by (simp add: keyword_match_def)

lemma keyword_match_empty: "keyword_match [] conf = (Some ''performance_query'', 0.2)"
  by (simp add: keyword_match_def any_in_def lower_def)

lemma INTENTS_eq:
  "INTENTS = [''revenue_query'', ''net_income_query'', ''assets_liabilities_query'',
     ''cash_flow_query'', ''growth_query'', ''performance_query'', ''comparison_query'',
     ''trend_query'', ''forecast_query'']"
  unfolding INTENTS_def QUERY_TEMPLATES_def by (simp only: list.map fst_conv)

lemma keyword_match_intent: "\<exists>qt \<in> set INTENTS. fst (keyword_match ql conf) = Some qt"
  by (simp add: keyword_match_def INTENTS_eq)

lemma formatted_templates_keys: "map fst (formatted_templates company) = INTENTS"
  by (simp add: formatted_templates_def INTENTS_def comp_def case_prod_unfold)

lemma identify_unavailable:
  "query_type (identify_query_type Unavailable query company) =
     (case term_based_match query of
        None \<Rightarrow> fst (keyword_match (lower query) 0.3)
      | Some k \<Rightarrow> Some k)"
  "confidence (identify_query_type Unavailable query company) =
     (case term_based_match query of
        None \<Rightarrow> snd (keyword_match (lower query) 0.3)
      | Some k \<Rightarrow> 0.5)"
proof -
  show "query_type (identify_query_type Unavailable query company) =
     (case term_based_match query of
        None \<Rightarrow> fst (keyword_match (lower query) 0.3)
      | Some k \<Rightarrow> Some k)"
    using keyword_match_Some [of "lower query" "0.3"]
    by (auto simp: identify_query_type_def Let_def term_based_match_def truthy_def
             split: prod.splits list.splits option.splits)
  show "confidence (identify_query_type Unavailable query company) =
     (case term_based_match query of
        None \<Rightarrow> snd (keyword_match (lower query) 0.3)
      | Some k \<Rightarrow> 0.5)"
  proof (cases "term_based_match query")
    case None
    then show ?thesis
      using keyword_match_Some [of "lower query" "0.3"]
      by (auto simp: identify_query_type_def Let_def term_based_match_def truthy_def
               split: prod.splits list.splits option.splits)
  next
    case (Some k)
    then have "k \<noteq> []" by (rule term_based_match_truthy)
    with Some show ?thesis
      by (auto simp: identify_query_type_def Let_def term_based_match_def truthy_def
               split: prod.splits list.splits option.splits)
  qed
qed

lemma identify_available:
  "query_type (identify_query_type (Available engine) query company) =
     (case fst (similarity_result engine query company) of
        Some qt \<Rightarrow> Some qt
      | None \<Rightarrow> (case term_based_match query of
                   Some k \<Rightarrow> Some k | None \<Rightarrow> Some ''performance_query''))"
  "confidence (identify_query_type (Available engine) query company) =
     (if fst (similarity_result engine query company) = None \<and> term_based_match query = None
      then 0.2
      else if snd (similarity_result engine query company) > 0
      then snd (similarity_result engine query company) else 0.3)"
  by (auto simp: identify_query_type_def Let_def term_based_match_def similarity_result_def
         score_query_types_fold split: prod.splits list.splits option.splits)

lemma analyze_available_first_max:
  assumes "scored_pairs engine (preprocess_text query) (formatted_templates company)
             = xs @ (qt, m) # ys"
    and "\<forall>p \<in> set xs. snd p < m" and "\<forall>p \<in> set ys. snd p \<le> m" and "- 1 < m"
  shows "similarity_result engine query company = (Some qt, m)"
  unfolding similarity_result_def assms(1)
  by (rule fold_update_first_max) (use assms in auto)

lemma similarity_result_intent:
  "fst (similarity_result engine query company) = Some qt \<Longrightarrow> qt \<in> set INTENTS"
proof -
  assume a: "fst (similarity_result engine query company) = Some qt"
  let ?ps = "scored_pairs engine (preprocess_text query) (formatted_templates company)"
  from fold_update_result [of ?ps "(None, - 1)"] a
  obtain p where "p \<in> set ?ps" "fst p = qt"
    unfolding similarity_result_def by auto
  then obtain templates where "(qt, templates) \<in> set (formatted_templates company)"
    using scored_pairs_origin [of p engine] by blast
  then have "qt \<in> set (map fst (formatted_templates company))" by force
  then show ?thesis by (simp only: formatted_templates_keys)
qed

lemma identify_query_type_Some: "\<exists>intent. query_type (identify_query_type sk query company) = Some intent"
proof (cases sk)
  case Unavailable
  then show ?thesis
    using keyword_match_Some [of "lower query" "0.3"]
    by (auto simp: identify_unavailable split: option.splits)
next
  case (Available engine)
  then show ?thesis by (auto simp: identify_available split: option.splits)
qed

text \<open>
  The values of the intent field: an intent identifier, or the name of a term category
  (the term-based fallback), never an absent value.
\<close>

lemma query_type_values:
  "\<exists>v. query_type (analyze_query sk query company) = Some v \<and>
       (v \<in> set INTENTS \<or> v \<in> set (map fst FINANCIAL_TERMS))"
proof (cases sk)
  case Unavailable
  show ?thesis
  proof (cases "term_based_match query")
    case None
    then show ?thesis
      using keyword_match_intent [of "lower query" "0.3"]
      by (auto simp: Unavailable analyze_query_type identify_unavailable)
  next
    case (Some k)
    then show ?thesis
      using term_based_match_category [OF Some]
      by (auto simp: Unavailable analyze_query_type identify_unavailable)
  qed
next
  case (Available engine)
  show ?thesis
  proof (cases "fst (similarity_result engine query company)")
    case (Some qt)
    then show ?thesis
      using similarity_result_intent [OF Some]
      by (auto simp: Available analyze_query_type identify_available)
  next
    case None
    show ?thesis
    proof (cases "term_based_match query")
      case None
      with \<open>fst (similarity_result engine query company) = None\<close> show ?thesis
        by (auto simp: Available analyze_query_type identify_available INTENTS_eq)
    next
      case (Some k)
      with \<open>fst (similarity_result engine query company) = None\<close> show ?thesis
        using term_based_match_category [OF Some]
        by (auto simp: Available analyze_query_type identify_available)
    qed
  qed
qed

lemma confidence_unavailable:
  "confidence (identify_query_type Unavailable query company) \<in> {0.5, 0.3, 0.2}"
  using keyword_match_confidence [of "lower query" "0.3"]
  by (auto simp: identify_unavailable split: option.splits)

lemma confidence_available_positive:
  "0 < confidence (identify_query_type (Available engine) query company)"
  by (simp add: identify_available)

lemma confidence_available_le:
  assumes "\<forall>p \<in> set (scored_pairs engine (preprocess_text query) (formatted_templates company)).
             snd p \<le> b" and "0.3 \<le> b"
  shows "confidence (identify_query_type (Available engine) query company) \<le> b"
proof -
  have "snd (similarity_result engine query company) \<le> b"
    unfolding similarity_result_def using assms by (intro fold_update_le) auto
  then show ?thesis using assms(2) by (simp add: identify_available)
qed

lemma confidence_available_default:
  assumes "\<forall>p \<in> set (scored_pairs engine (preprocess_text query) (formatted_templates company)).
             snd p \<le> 0"
  shows "confidence (identify_query_type (Available engine) query company) \<in> {0.3, 0.2}"
proof -
  have "snd (similarity_result engine query company) \<le> 0"
    unfolding similarity_result_def using assms by (intro fold_update_le) auto
  then show ?thesis by (simp add: identify_available)
qed

lemma confidence_available_score:
  assumes "\<exists>p \<in> set (scored_pairs engine (preprocess_text query) (formatted_templates company)).
             0 < snd p"
  shows "\<exists>p \<in> set (scored_pairs engine (preprocess_text query) (formatted_templates company)).
           confidence (identify_query_type (Available engine) query company) = snd p \<and>
           (\<forall>p' \<in> set (scored_pairs engine (preprocess_text query) (formatted_templates company)).
              snd p' \<le> snd p)"
proof -
  let ?ps = "scored_pairs engine (preprocess_text query) (formatted_templates company)"
  let ?r = "fold update_best ?ps (None, - 1)"
  have ge: "\<forall>p \<in> set ?ps. snd p \<le> snd ?r" by (rule fold_update_ge_scores)
  with assms have pos: "0 < snd ?r" by force
  from fold_update_result [of ?ps "(None, - 1)"] pos
  obtain p where p: "p \<in> set ?ps" "?r = (Some (fst p), snd p)" by auto
  then have "confidence (identify_query_type (Available engine) query company) = snd p"
    using pos by (simp add: identify_available similarity_result_def)
  then show ?thesis using p ge by auto
qed

section \<open>The engine model: bounds of the scores\<close>

lemma dot_Nil: "dot [] y = 0" "dot x [] = 0"
  by (simp_all add: dot_def)

lemma dot_Cons: "dot (a # x) (b # y) = a * b + dot x y"
  by (simp add: dot_def)

lemma dot_self_nonneg: "0 \<le> dot x x"
  by (induction x) (simp_all add: dot_Nil dot_Cons)

lemma cauchy_schwarz_step:
  fixes a b s X Y :: real
  assumes "s \<le> sqrt X * sqrt Y" "0 \<le> X" "0 \<le> Y"
  shows "a * b + s \<le> sqrt (a * a + X) * sqrt (b * b + Y)"
proof -
  let ?p = "sqrt X" and ?q = "sqrt Y"
  have p: "?p * ?p = X" and q: "?q * ?q = Y" using assms by simp_all
  have "0 \<le> (a * ?q - b * ?p)\<^sup>2" by simp
  then have "(a * b + ?p * ?q)\<^sup>2 \<le> (a * a + ?p * ?p) * (b * b + ?q * ?q)"
    by (simp add: power2_eq_square algebra_simps)
  then have "(a * b + ?p * ?q)\<^sup>2 \<le> (a * a + X) * (b * b + Y)"
    by (simp only: p q)
  then have "sqrt ((a * b + ?p * ?q)\<^sup>2) \<le> sqrt ((a * a + X) * (b * b + Y))"
    by (rule real_sqrt_le_mono)
  then have "\<bar>a * b + ?p * ?q\<bar> \<le> sqrt (a * a + X) * sqrt (b * b + Y)"
    by (simp add: real_sqrt_mult)
  then show ?thesis using assms(1) by linarith
qed

lemma cauchy_schwarz: "dot x y \<le> sqrt (dot x x) * sqrt (dot y y)"
proof (induction x arbitrary: y)
  case Nil
  show ?case by (simp add: dot_Nil)
next
  case (Cons a x)
  show ?case
  proof (cases y)
    case Nil
    then show ?thesis by (simp add: dot_Nil)
  next
    case (Cons b y')
    show ?thesis
      unfolding Cons dot_Cons
      by (rule cauchy_schwarz_step [OF Cons.IH dot_self_nonneg dot_self_nonneg])
  qed
qed

lemma dot_scale: "dot (map (\<lambda>a. a / c) x) (map (\<lambda>a. a / c) x) = dot x x / (c * c)"
  by (induction x) (simp_all add: dot_Nil dot_Cons add_divide_distrib)

lemma l2_normalize_norm: "dot (l2_normalize v) (l2_normalize v) \<le> 1"
proof (cases "sqrt (dot v v) = 0")
  case True
  then have "dot v v = 0" by simp
  with True show ?thesis by (simp add: l2_normalize_def)
next
  case False
  then have "dot v v \<noteq> 0" by auto
  moreover have "sqrt (dot v v) * sqrt (dot v v) = dot v v"
    using dot_self_nonneg [of v] by simp
  ultimately show ?thesis using False by (simp add: l2_normalize_def dot_scale)
qed

lemma l2_normalize_unit: "dot v v \<noteq> 0 \<Longrightarrow> dot (l2_normalize v) (l2_normalize v) = 1"
proof -
  assume nz: "dot v v \<noteq> 0"
  then have "sqrt (dot v v) \<noteq> 0" by simp
  moreover have "sqrt (dot v v) * sqrt (dot v v) = dot v v"
    using dot_self_nonneg [of v] by simp
  ultimately show ?thesis using nz by (simp add: l2_normalize_def dot_scale)
qed

lemma cosine_le_1: "dot (l2_normalize x) (l2_normalize y) \<le> 1"
proof -
  have "dot (l2_normalize x) (l2_normalize y) \<le>
        sqrt (dot (l2_normalize x) (l2_normalize x)) * sqrt (dot (l2_normalize y) (l2_normalize y))"
    by (rule cauchy_schwarz)
  also have "\<dots> \<le> 1 * 1"
    by (intro mult_mono) (simp_all add: l2_normalize_norm dot_self_nonneg)
  finally show ?thesis by simp
qed

lemma dot_nonneg: "\<forall>a \<in> set x. 0 \<le> a \<Longrightarrow> \<forall>b \<in> set y. 0 \<le> b \<Longrightarrow> 0 \<le> dot x y"
proof (induction x arbitrary: y)
  case Nil
  show ?case by (simp add: dot_Nil)
next
  case (Cons a x)
  then show ?case by (cases y) (simp_all add: dot_Nil dot_Cons)
qed

lemma l2_normalize_nonneg: "\<forall>a \<in> set x. 0 \<le> a \<Longrightarrow> \<forall>a \<in> set (l2_normalize x). 0 \<le> a"
  by (auto simp: l2_normalize_def dot_self_nonneg intro!: divide_nonneg_nonneg)

lemma idf_positive: "0 < idf docs t"
proof -
  have "length (filter (\<lambda>d. t \<in> set (tokenize d)) docs) \<le> length docs" by simp
  then have "1 \<le> (1 + real (length docs)) / (1 + real (length (filter (\<lambda>d. t \<in> set (tokenize d)) docs)))"
    by (simp add: le_divide_eq)
  then have "0 \<le> ln ((1 + real (length docs)) / (1 + real (length (filter (\<lambda>d. t \<in> set (tokenize d)) docs))))"
    by (rule ln_ge_zero)
  then show ?thesis unfolding idf_def by linarith
qed

lemma tfidf_row_nonneg: "\<forall>a \<in> set (tfidf_row docs d). 0 \<le> a"
  unfolding tfidf_row_def
  by (rule l2_normalize_nonneg) (auto simp: less_imp_le [OF idf_positive])

lemma tfidf_fit_rows:
  "fit_transform tfidf_engine docs = Inr m \<Longrightarrow> m = map (tfidf_row docs) docs"
  by (auto simp: tfidf_engine_def split: if_splits)

lemma tfidf_cosine_bounds:
  assumes "fit_transform tfidf_engine docs = Inr m" "cosine_similarity tfidf_engine m i = Inr x"
  shows "0 \<le> x \<and> x \<le> 1"
proof -
  have m: "m = map (tfidf_row docs) docs" using assms(1) by (rule tfidf_fit_rows)
  from assms(2) have i: "i < length m"
    and x: "x = dot (l2_normalize (m ! 0)) (l2_normalize (m ! i))"
    by (auto simp: tfidf_engine_def split: if_splits)
  have "0 < length docs" "i < length docs" using i unfolding m by auto
  then have "m ! 0 = tfidf_row docs (docs ! 0)" "m ! i = tfidf_row docs (docs ! i)"
    unfolding m by simp_all
  then have "\<forall>a \<in> set (m ! 0). 0 \<le> a" "\<forall>a \<in> set (m ! i). 0 \<le> a"
    using tfidf_row_nonneg by simp_all
  then have "0 \<le> x"
    unfolding x by (intro dot_nonneg l2_normalize_nonneg)
  then show ?thesis unfolding x using cosine_le_1 by simp
qed

lemma tfidf_scores_bounds:
  "\<forall>p \<in> set (scored_pairs tfidf_engine pq formatted). 0 \<le> snd p \<and> snd p \<le> 1"
  using scored_pairs_origin tfidf_cosine_bounds by blast

section \<open>The engine model on a query without tokens and on identical texts\<close>

lemma dot_zero_left: "\<forall>a \<in> set x. a = 0 \<Longrightarrow> dot x y = 0"
  unfolding dot_def by (induction x arbitrary: y) (auto split: list.splits simp: zip_Cons1)

lemma l2_normalize_zero: "\<forall>a \<in> set x. a = 0 \<Longrightarrow> \<forall>a \<in> set (l2_normalize x). a = 0"
  by (auto simp: l2_normalize_def)

lemma tokenize_empty: "tokenize [] = []"
  by (simp add: tokenize_def lower_def)

lemma tfidf_row_no_tokens: "tokenize d = [] \<Longrightarrow> \<forall>a \<in> set (tfidf_row docs d). a = 0"
  unfolding tfidf_row_def by (rule l2_normalize_zero) simp

lemma scores_all_zero:
  assumes "\<forall>i \<in> set is. sim i = Inr 0"
  shows "scores_before_failure sim is = map (\<lambda>i. 0) is"
  using assms by (induction "is") auto

lemma tfidf_scores_no_tokens:
  assumes "tokenize pq = []"
  shows "(case fit_transform tfidf_engine (pq # templates) of
            Inl e \<Rightarrow> []
          | Inr m \<Rightarrow> map (Pair qt)
              (scores_before_failure (cosine_similarity tfidf_engine m) [1..<Suc (length templates)]))
         = (if vocabulary (pq # templates) = [] then [] else map (\<lambda>t. (qt, 0)) templates)"
proof (cases "vocabulary (pq # templates) = []")
  case True
  then show ?thesis by (simp add: tfidf_engine_def)
next
  case False
  let ?docs = "pq # templates"
  let ?m = "map (tfidf_row ?docs) ?docs"
  have fit: "fit_transform tfidf_engine ?docs = Inr ?m"
    using False by (simp add: tfidf_engine_def)
  have "?m ! 0 = tfidf_row ?docs pq" by simp
  then have z: "\<forall>a \<in> set (l2_normalize (?m ! 0)). a = 0"
    using l2_normalize_zero [OF tfidf_row_no_tokens [OF assms, of ?docs]] by (simp only:)
  have "cosine_similarity tfidf_engine ?m i = Inr 0" if "i \<in> set [1..<Suc (length templates)]" for i
  proof -
    from that have "i < length ?m" by auto
    then show ?thesis using dot_zero_left [OF z] by (simp add: tfidf_engine_def)
  qed
  then have "scores_before_failure (cosine_similarity tfidf_engine ?m) [1..<Suc (length templates)]
             = map (\<lambda>i. 0) [1..<Suc (length templates)]"
    by (intro scores_all_zero) blast
  moreover have "map (\<lambda>i. (qt, 0::real)) [1..<Suc (length templates)] = map (\<lambda>t. (qt, 0)) templates"
    by (simp only: map_replicate_const length_upt diff_Suc_1)
  ultimately show ?thesis using False fit by (simp add: comp_def)
qed

lemma scored_pairs_no_tokens:
  assumes "tokenize pq = []"
  shows "scored_pairs tfidf_engine pq formatted =
     concat (map (\<lambda>(qt, templates).
        if vocabulary (pq # templates) = [] then [] else map (\<lambda>t. (qt, 0)) templates) formatted)"
  unfolding scored_pairs_def tfidf_scores_no_tokens [OF assms] ..

lemma scored_pairs_no_tokens_zero:
  assumes "tokenize pq = []"
  shows "\<forall>p \<in> set (scored_pairs tfidf_engine pq formatted). snd p = 0"
  unfolding scored_pairs_no_tokens [OF assms] by (auto split: if_splits)

lemma vocabulary_nonempty: "d \<in> set docs \<Longrightarrow> tokenize d \<noteq> [] \<Longrightarrow> vocabulary docs \<noteq> []"
  by (auto simp: vocabulary_def)

lemma dot_self_positive: "\<exists>a \<in> set v. a \<noteq> 0 \<Longrightarrow> 0 < dot v v"
proof (induction v)
  case Nil
  then show ?case by simp
next
  case (Cons a v)
  show ?case
  proof (cases "a = 0")
    case True
    with Cons show ?thesis by (simp add: dot_Cons)
  next
    case False
    then have "0 < a\<^sup>2" by simp
    then have "0 < a * a" by (simp add: power2_eq_square)
    then show ?thesis using dot_self_nonneg [of v] by (simp add: dot_Cons)
  qed
qed

lemma tfidf_row_unit:
  assumes "d \<in> set docs" "tokenize d \<noteq> []"
  shows "dot (tfidf_row docs d) (tfidf_row docs d) = 1"
proof -
  let ?v = "map (\<lambda>t. real (count_list (tokenize d) t) * idf docs t) (vocabulary docs)"
  obtain t where t: "t \<in> set (tokenize d)" using assms(2) by (cases "tokenize d") auto
  then have "t \<in> set (vocabulary docs)" using assms(1) by (auto simp: vocabulary_def)
  moreover have "count_list (tokenize d) t \<noteq> 0" using t by (simp add: count_list_0_iff)
  then have "real (count_list (tokenize d) t) * idf docs t \<noteq> 0"
    using idf_positive [of docs t] by simp
  ultimately have "\<exists>a \<in> set ?v. a \<noteq> 0" by auto
  then have "dot ?v ?v \<noteq> 0" using dot_self_positive [of ?v] by simp
  then show ?thesis unfolding tfidf_row_def by (rule l2_normalize_unit)
qed

lemma tfidf_identical_text:
  assumes "tokenize pq \<noteq> []"
  shows "cosine_similarity tfidf_engine (map (tfidf_row (pq # pq # ts)) (pq # pq # ts)) 1 = Inr 1"
proof -
  let ?docs = "pq # pq # ts"
  have u: "dot (tfidf_row ?docs pq) (tfidf_row ?docs pq) = 1"
    by (rule tfidf_row_unit) (use assms in simp_all)
  then have "dot (l2_normalize (tfidf_row ?docs pq)) (l2_normalize (tfidf_row ?docs pq)) = 1"
    by (intro l2_normalize_unit) simp
  then show ?thesis by (simp add: tfidf_engine_def)
qed

lemma tfidf_pairs_identical_text:
  assumes "tokenize pq \<noteq> []"
  shows "\<exists>others. scored_pairs tfidf_engine pq ((qt, pq # ts) # rest) = (qt, 1) # others"
proof -
  let ?docs = "pq # pq # ts"
  define m where "m = map (tfidf_row ?docs) ?docs"
  have v: "vocabulary ?docs \<noteq> []"
    by (rule vocabulary_nonempty [of pq]) (use assms in simp_all)
  then have fit: "fit_transform tfidf_engine ?docs = Inr m"
    by (simp add: tfidf_engine_def m_def)
  have c1: "cosine_similarity tfidf_engine m 1 = Inr 1"
    unfolding m_def by (rule tfidf_identical_text [OF assms])
  have upt: "[1..<Suc (length (pq # ts))] = 1 # [Suc 1..<Suc (length (pq # ts))]"
    by (rule upt_conv_Cons) simp
  have sc: "scores_before_failure (cosine_similarity tfidf_engine m) [1..<Suc (length (pq # ts))]
      = 1 # scores_before_failure (cosine_similarity tfidf_engine m)
              [Suc 1..<Suc (length (pq # ts))]"
    unfolding upt by (simp only: scores_before_failure.simps c1 sum.case)
  show ?thesis
    unfolding scored_pairs_def list.map prod.case concat.simps fit sum.case sc append_Cons
    by (intro exI) (rule refl)
qed

section \<open>The normalizer and the bank on concrete inputs\<close>

lemma format_revenue_question: "format_company ''What is the revenue of {company}?'' ''Acme'' = ''What is the revenue of Acme?''"
  by simp

lemma split_revenue_question: "str_split ''what is the revenue of acme?'' = [''what'', ''is'', ''the'', ''revenue'', ''of'', ''acme?'']"
  by (simp add: is_space_def)

lemma strip_revenue_question: "map (str_strip strip_chars) [''what'', ''is'', ''the'', ''revenue'', ''of'', ''acme?''] = [''what'', ''is'', ''the'', ''revenue'', ''of'', ''acme'']"
  by (simp add: str_strip_def strip_chars_def)

lemma stop_in: "''what'' \<in> set stop_words" "''is'' \<in> set stop_words" "''the'' \<in> set stop_words"
  "''of'' \<in> set stop_words"
  by (simp_all add: stop_words_def)

lemma stop_out: "''revenue'' \<notin> set stop_words" "''acme'' \<notin> set stop_words"
  by (simp_all add: stop_words_def)

lemma stop_revenue_question: "filter (\<lambda>word. word \<notin> set stop_words \<and> length word > 1) [''what'', ''is'', ''the'', ''revenue'', ''of'', ''acme''] = [''revenue'', ''acme'']"
  by (simp add: stop_in stop_out)

lemma nonempty_revenue_question: "filter (\<lambda>clean_word. clean_word \<noteq> []) [''what'', ''is'', ''the'', ''revenue'', ''of'', ''acme''] = [''what'', ''is'', ''the'', ''revenue'', ''of'', ''acme'']"
  by simp

lemma preprocess_revenue_question: "preprocess_text ''What is the revenue of Acme?'' = ''revenue acme''"
  unfolding preprocess_text_def Let_def lower_revenue_question split_revenue_question strip_revenue_question nonempty_revenue_question stop_revenue_question
  by simp

lemma preprocess_empty: "preprocess_text [] = []"
  by (simp add: preprocess_text_def lower_def)

lemma tokenize_revenue_acme: "tokenize ''revenue acme'' = [''revenue'', ''acme'']"
  by (simp add: tokenize_def lower_def lower_char_def is_word_char_def)

lemma format_net_income_question: "format_company ''What is the net income of {company}?'' ''Acme'' = ''What is the net income of Acme?''"
  by simp

lemma lower_net_income_question: "lower ''What is the net income of Acme?'' = ''what is the net income of acme?''"
  by (simp add: lower_def lower_char_def char_of_eq_iff)

lemma split_net_income_question: "str_split ''what is the net income of acme?'' = [''what'', ''is'', ''the'', ''net'', ''income'', ''of'', ''acme?'']"
  by (simp add: is_space_def)

lemma strip_net_income_question: "map (str_strip strip_chars) [''what'', ''is'', ''the'', ''net'', ''income'', ''of'', ''acme?''] = [''what'', ''is'', ''the'', ''net'', ''income'', ''of'', ''acme'']"
  by (simp add: str_strip_def strip_chars_def)

lemma nonempty_net_income_question: "filter (\<lambda>clean_word. clean_word \<noteq> []) [''what'', ''is'', ''the'', ''net'', ''income'', ''of'', ''acme''] = [''what'', ''is'', ''the'', ''net'', ''income'', ''of'', ''acme'']"
  by simp

lemma stop_out_net_income: "''net'' \<notin> set stop_words" "''income'' \<notin> set stop_words"
  by (simp_all add: stop_words_def)

lemma stop_net_income_question: "filter (\<lambda>word. word \<notin> set stop_words \<and> length word > 1) [''what'', ''is'', ''the'', ''net'', ''income'', ''of'', ''acme''] = [''net'', ''income'', ''acme'']"
  by (simp add: stop_in stop_out stop_out_net_income)

lemma preprocess_net_income_question: "preprocess_text ''What is the net income of Acme?'' = ''net income acme''"
  unfolding preprocess_text_def Let_def lower_net_income_question split_net_income_question strip_net_income_question nonempty_net_income_question stop_net_income_question
  by simp

lemma tokenize_net_income_acme: "tokenize ''net income acme'' = [''net'', ''income'', ''acme'']"
  by (simp add: tokenize_def lower_def lower_char_def is_word_char_def)

lemma bank_head:
  "\<exists>ts1 ts2 rest. QUERY_TEMPLATES =
     (''revenue_query'', ''What is the revenue of {company}?'' # ts1) #
     (''net_income_query'', ''What is the net income of {company}?'' # ts2) # rest"
  unfolding QUERY_TEMPLATES_def by (intro exI) (rule refl)

lemma formatted_templates_heads:
  "\<exists>ts1 ts2 rest. formatted_templates company =
     (''revenue_query'',
      preprocess_text (format_company ''What is the revenue of {company}?'' company) # ts1) #
     (''net_income_query'',
      preprocess_text (format_company ''What is the net income of {company}?'' company) # ts2) #
     rest"
proof -
  obtain ts1 ts2 rest where q: "QUERY_TEMPLATES =
     (''revenue_query'', ''What is the revenue of {company}?'' # ts1) #
     (''net_income_query'', ''What is the net income of {company}?'' # ts2) # rest"
    using bank_head by blast
  show ?thesis
    unfolding formatted_templates_def q list.map prod.case by blast
qed

lemma formatted_templates_head:
  "\<exists>ts rest. formatted_templates company =
     (''revenue_query'',
      preprocess_text (format_company ''What is the revenue of {company}?'' company) # ts) # rest"
  using formatted_templates_heads [of company] by blast

lemma formatted_templates_second:
  "\<exists>ts ts2 rest. formatted_templates company =
     (''revenue_query'', ts) #
     (''net_income_query'',
      preprocess_text (format_company ''What is the net income of {company}?'' company) # ts2) # rest"
  using formatted_templates_heads [of company] by blast

lemma empty_query_pairs_Acme:
  "\<exists>others. scored_pairs tfidf_engine (preprocess_text []) (formatted_templates ''Acme'') =
           (''revenue_query'', 0) # others \<and> (\<forall>p \<in> set others. snd p = 0)"
proof -
  obtain ts rest where f: "formatted_templates ''Acme'' =
      (''revenue_query'', ''revenue acme'' # ts) # rest"
    using formatted_templates_head [of "''Acme''"] by (auto simp: format_revenue_question preprocess_revenue_question)
  have v: "vocabulary ([] # ''revenue acme'' # ts) \<noteq> []"
    by (rule vocabulary_nonempty [of "''revenue acme''"]) (simp_all add: tokenize_revenue_acme)
  let ?pairs = "scored_pairs tfidf_engine [] (formatted_templates ''Acme'')"
  have all0: "\<forall>p \<in> set ?pairs. snd p = 0"
    by (rule scored_pairs_no_tokens_zero) (rule tokenize_empty)
  have "?pairs = (''revenue_query'', 0) # (map (\<lambda>t. (''revenue_query'', 0)) ts @
      concat (map (\<lambda>(qt, templates).
        if vocabulary ([] # templates) = [] then [] else map (\<lambda>t. (qt, 0)) templates) rest))"
    unfolding scored_pairs_no_tokens [OF tokenize_empty] f using v by simp
  then show ?thesis using all0 unfolding preprocess_empty by auto
qed

lemma empty_query_similarity_Acme:
  "similarity_result tfidf_engine [] ''Acme'' = (Some ''revenue_query'', 0)"
proof -
  obtain others where p: "scored_pairs tfidf_engine (preprocess_text []) (formatted_templates ''Acme'') =
           [] @ (''revenue_query'', 0) # others" and z: "\<forall>p \<in> set others. snd p = 0"
    using empty_query_pairs_Acme by auto
  show ?thesis
    unfolding similarity_result_def p
    by (rule fold_update_first_max) (use z in auto)
qed

lemma empty_query_tie_Acme:
  "(''net_income_query'', 0) \<in>
     set (scored_pairs tfidf_engine (preprocess_text []) (formatted_templates ''Acme''))"
proof -
  obtain ts ts2 rest where f: "formatted_templates ''Acme'' =
      (''revenue_query'', ts) # (''net_income_query'', ''net income acme'' # ts2) # rest"
    using formatted_templates_second [of "''Acme''"] by (auto simp: format_net_income_question preprocess_net_income_question)
  have v: "vocabulary ([] # ''net income acme'' # ts2) \<noteq> []"
    by (rule vocabulary_nonempty [of "''net income acme''"]) (simp_all add: tokenize_net_income_acme)
  show ?thesis
    unfolding preprocess_empty scored_pairs_no_tokens [OF tokenize_empty] f using v by simp
qed

lemma revenue_query_with_tfidf:
  "similarity_result tfidf_engine ''What is the revenue of Acme?'' ''Acme''
     = (Some ''revenue_query'', 1)"
proof -
  obtain ts rest where f: "formatted_templates ''Acme'' =
      (''revenue_query'', ''revenue acme'' # ts) # rest"
    using formatted_templates_head [of "''Acme''"] by (auto simp: format_revenue_question preprocess_revenue_question)
  have tok: "tokenize ''revenue acme'' \<noteq> []" by (simp add: tokenize_revenue_acme)
  obtain others where p: "scored_pairs tfidf_engine (preprocess_text ''What is the revenue of Acme?'')
      (formatted_templates ''Acme'') = [] @ (''revenue_query'', 1) # others"
    unfolding preprocess_revenue_question f
    using tfidf_pairs_identical_text [OF tok, of "''revenue_query''" ts rest] by auto
  have "\<forall>p \<in> set others. snd p \<le> 1"
    using tfidf_scores_bounds [of "preprocess_text ''What is the revenue of Acme?''"
        "formatted_templates ''Acme''"] unfolding p by simp
  then show ?thesis
    by (intro analyze_available_first_max [OF p]) auto
qed

section \<open>Exceptions inside the scoring loop\<close>

lemma score_templates_raise:
  assumes "\<forall>i \<in> set is1. \<exists>x. sim i = Inr x" and "sim j = Inl e"
  shows "score_templates sim qt (is1 @ j # is2) st =
           (fold update_best (map (\<lambda>i. (qt, projr (sim i))) is1) st, Some e)"
  using assms by (induction is1 arbitrary: st) (auto simp: update_best_def)

lemma scores_before_failure_raise:
  assumes "\<forall>i \<in> set is1. \<exists>x. sim i = Inr x" and "sim j = Inl e"
  shows "scores_before_failure sim (is1 @ j # is2) = map (\<lambda>i. projr (sim i)) is1"
  using assms by (induction is1) auto

lemma upt_split_at:
  assumes "1 \<le> k" and "k \<le> n"
  shows "[1..<Suc n] = [1..<k] @ k # [Suc k..<Suc n]"
proof -
  have "[1..<Suc n] = [1..<k] @ [k..<Suc n]"
    using assms upt_add_eq_append [of 1 k "Suc n - k"] by simp
  moreover have "[k..<Suc n] = k # [Suc k..<Suc n]"
    using assms by (intro upt_conv_Cons) simp
  ultimately show ?thesis by simp
qed

lemma scored_pairs_append:
  "scored_pairs engine pq (xs @ ys) = scored_pairs engine pq xs @ scored_pairs engine pq ys"
  by (simp add: scored_pairs_def)

lemma scored_pairs_Cons:
  "scored_pairs engine pq ((qt, templates) # ys) =
     (case fit_transform engine (pq # templates) of
        Inl e \<Rightarrow> []
      | Inr m \<Rightarrow> map (Pair qt)
          (scores_before_failure (cosine_similarity engine m) [1..<Suc (length templates)])) @
     scored_pairs engine pq ys"
  by (simp add: scored_pairs_def)

lemma vectorizer_failure:
  assumes "fit_transform engine (pq # templates) = Inl e"
  shows "try_query_type engine pq (qt, templates) st = (st, Some e)"
    and "scored_pairs engine pq (before @ (qt, templates) # nxt) =
         scored_pairs engine pq (before @ nxt)"
  using assms by (simp_all add: try_query_type_def scored_pairs_append scored_pairs_Cons)

lemma similarity_failure:
  assumes "fit_transform engine (pq # templates) = Inr m"
    and "1 \<le> k" and "k \<le> length templates"
    and "\<forall>i. 1 \<le> i \<and> i < k \<longrightarrow> (\<exists>x. cosine_similarity engine m i = Inr x)"
    and "cosine_similarity engine m k = Inl e"
  shows "try_query_type engine pq (qt, templates) st =
           (fold update_best (map (\<lambda>i. (qt, projr (cosine_similarity engine m i))) [1..<k]) st,
            Some e)"
    and "scored_pairs engine pq (before @ (qt, templates) # nxt) =
         scored_pairs engine pq before @
         map (\<lambda>i. (qt, projr (cosine_similarity engine m i))) [1..<k] @
         scored_pairs engine pq nxt"
proof -
  have s: "[1..<Suc (length templates)] = [1..<k] @ k # [Suc k..<Suc (length templates)]"
    using assms(2,3) by (rule upt_split_at)
  have a: "\<forall>i \<in> set [1..<k]. \<exists>x. cosine_similarity engine m i = Inr x"
    using assms(4) by simp
  show "try_query_type engine pq (qt, templates) st =
           (fold update_best (map (\<lambda>i. (qt, projr (cosine_similarity engine m i))) [1..<k]) st,
            Some e)"
    using score_templates_raise [OF a assms(5)] assms(1)
    by (simp add: try_query_type_def s del: upt_Suc One_nat_def)
  show "scored_pairs engine pq (before @ (qt, templates) # nxt) =
         scored_pairs engine pq before @
         map (\<lambda>i. (qt, projr (cosine_similarity engine m i))) [1..<k] @
         scored_pairs engine pq nxt"
    using scores_before_failure_raise [OF a assms(5)] assms(1)
    by (simp add: scored_pairs_append scored_pairs_Cons s comp_def del: upt_Suc One_nat_def)
qed


section \<open>More of the bank on concrete inputs\<close>

lemma bank_two_heads:
  "\<exists>s2 ts1 t2 ts2 rest. QUERY_TEMPLATES =
     (''revenue_query'', ''What is the revenue of {company}?'' # s2 # ts1) #
     (''net_income_query'', ''What is the net income of {company}?'' # t2 # ts2) # rest"
  unfolding QUERY_TEMPLATES_def by (intro exI) (rule refl)

lemma formatted_templates_two_heads:
  "\<exists>s2 ts1 t2 ts2 rest. formatted_templates company =
     (''revenue_query'',
      preprocess_text (format_company ''What is the revenue of {company}?'' company) # s2 # ts1) #
     (''net_income_query'',
      preprocess_text (format_company ''What is the net income of {company}?'' company) # t2 # ts2) #
     rest"
proof -
  obtain s2 ts1 t2 ts2 rest where q: "QUERY_TEMPLATES =
     (''revenue_query'', ''What is the revenue of {company}?'' # s2 # ts1) #
     (''net_income_query'', ''What is the net income of {company}?'' # t2 # ts2) # rest"
    using bank_two_heads by blast
  show ?thesis
    unfolding formatted_templates_def q list.map prod.case by blast
qed

lemma formatted_templates_Acme:
  "\<exists>s2 ts1 t2 ts2 rest. formatted_templates ''Acme'' =
     (''revenue_query'', ''revenue acme'' # s2 # ts1) #
     (''net_income_query'', ''net income acme'' # t2 # ts2) # rest"
  using formatted_templates_two_heads [of "''Acme''"]
  by (simp only: format_revenue_question preprocess_revenue_question
        format_net_income_question preprocess_net_income_question)

lemma bank_performance:
  "\<exists>e1 e2 e3 e4 e5 ts rest. QUERY_TEMPLATES =
     e1 # e2 # e3 # e4 # e5 #
     (''performance_query'', ''How is {company} performing?'' # ts) # rest"
  unfolding QUERY_TEMPLATES_def by (intro exI) (rule refl)

lemma formatted_templates_performance:
  "\<exists>before ts rest. formatted_templates company =
     before @
     (''performance_query'',
      preprocess_text (format_company ''How is {company} performing?'' company) # ts) # rest"
proof -
  obtain e1 e2 e3 e4 e5 ts rest where q: "QUERY_TEMPLATES =
     e1 # e2 # e3 # e4 # e5 #
     (''performance_query'', ''How is {company} performing?'' # ts) # rest"
    using bank_performance by blast
  have "formatted_templates company =
     map (\<lambda>(query_type, templates).
            (query_type, map (\<lambda>template. preprocess_text (format_company template company))
                           templates)) [e1, e2, e3, e4, e5] @
     (''performance_query'',
      preprocess_text (format_company ''How is {company} performing?'' company) #
      map (\<lambda>template. preprocess_text (format_company template company)) ts) #
     map (\<lambda>(query_type, templates).
            (query_type, map (\<lambda>template. preprocess_text (format_company template company))
                           templates)) rest"
    unfolding formatted_templates_def q by (simp only: list.map prod.case append_Cons append_Nil)
  then show ?thesis by blast
qed

lemma format_performance_question:
  "format_company ''How is {company} performing?'' ''Acme'' = ''How is Acme performing?''"
  by simp

lemma lower_performance_question:
  "lower ''How is Acme performing?'' = ''how is acme performing?''"
  by (simp add: lower_def lower_char_def char_of_eq_iff)

lemma split_performance_question:
  "str_split ''how is acme performing?'' = [''how'', ''is'', ''acme'', ''performing?'']"
  by (simp add: is_space_def)

lemma strip_performance_question:
  "map (str_strip strip_chars) [''how'', ''is'', ''acme'', ''performing?'']
     = [''how'', ''is'', ''acme'', ''performing'']"
  by (simp add: str_strip_def strip_chars_def)

lemma stop_in_how: "''how'' \<in> set stop_words"
  by (simp add: stop_words_def)

lemma stop_out_performing: "''performing'' \<notin> set stop_words"
  by (simp add: stop_words_def)

lemma stop_performance_question:
  "filter (\<lambda>word. word \<notin> set stop_words \<and> length word > 1)
     [''how'', ''is'', ''acme'', ''performing''] = [''acme'', ''performing'']"
  by (simp add: stop_in stop_out stop_in_how stop_out_performing)

lemma nonempty_performance_question:
  "filter (\<lambda>clean_word. clean_word \<noteq> []) [''how'', ''is'', ''acme'', ''performing'']
     = [''how'', ''is'', ''acme'', ''performing'']"
  by simp

lemma preprocess_performance_question:
  "preprocess_text ''How is Acme performing?'' = ''acme performing''"
  unfolding preprocess_text_def Let_def lower_performance_question split_performance_question
    strip_performance_question nonempty_performance_question stop_performance_question
  by simp

lemma tokenize_acme_performing: "tokenize ''acme performing'' = [''acme'', ''performing'']"
  by (simp add: tokenize_def lower_def lower_char_def is_word_char_def)

section \<open>The engines that fail\<close>

lemma boom_scores:
  "p \<in> set (scored_pairs boom_engine pq formatted) \<Longrightarrow> snd p = 1 / 2"
proof -
  assume "p \<in> set (scored_pairs boom_engine pq formatted)"
  then obtain m i where "cosine_similarity boom_engine m i = Inr (snd p)"
    using scored_pairs_origin by blast
  then show ?thesis by (simp add: boom_engine_def split: if_splits)
qed

lemma faulty_scores:
  "p \<in> set (scored_pairs faulty_engine pq formatted) \<Longrightarrow> snd p = 1 / 2"
proof -
  assume "p \<in> set (scored_pairs faulty_engine pq formatted)"
  then obtain m i where "cosine_similarity faulty_engine m i = Inr (snd p)"
    using scored_pairs_origin by blast
  then show ?thesis by (simp add: faulty_engine_def split: if_splits)
qed

lemma boom_first_template:
  "try_query_type boom_engine pq (qt, t1 # t2 # ts) (None, - 1)
     = ((Some qt, 1 / 2), Some (PyException ''boom''))"
  "scored_pairs boom_engine pq ((qt, t1 # t2 # ts) # rest)
     = (qt, 1 / 2) # scored_pairs boom_engine pq rest"
proof -
  have f: "fit_transform boom_engine (pq # t1 # t2 # ts) = Inr ()"
    by (simp add: boom_engine_def)
  have c1: "\<forall>i. 1 \<le> i \<and> i < 2 \<longrightarrow> (\<exists>x. cosine_similarity boom_engine () i = Inr x)"
  proof (intro allI impI)
    fix i :: nat
    assume "1 \<le> i \<and> i < 2"
    then have "i = 1" by simp
    then show "\<exists>x. cosine_similarity boom_engine () i = Inr x"
      by (intro exI [of _ "1 / 2"]) (simp add: boom_engine_def)
  qed
  have c2: "cosine_similarity boom_engine () 2 = Inl (PyException ''boom'')"
    by (simp add: boom_engine_def)
  have v: "projr (cosine_similarity boom_engine () 1) = 1 / 2"
    by (simp add: boom_engine_def)
  have u: "[1..<2] = [1::nat]" by (simp add: upt_rec)
  show "try_query_type boom_engine pq (qt, t1 # t2 # ts) (None, - 1)
     = ((Some qt, 1 / 2), Some (PyException ''boom''))"
    using similarity_failure(1) [OF f _ _ c1 c2, where qt = qt and st = "(None, - 1)"]
    by (simp add: u v update_best_def del: One_nat_def)
  show "scored_pairs boom_engine pq ((qt, t1 # t2 # ts) # rest)
     = (qt, 1 / 2) # scored_pairs boom_engine pq rest"
    using similarity_failure(2) [OF f _ _ c1 c2, where qt = qt and before = "[]" and nxt = rest]
    by (simp add: u v scored_pairs_def del: One_nat_def)
qed

lemma boom_similarity_result:
  "similarity_result boom_engine query ''Acme'' = (Some ''revenue_query'', 1 / 2)"
proof -
  obtain s2 ts1 t2 ts2 rest where f: "formatted_templates ''Acme'' =
     (''revenue_query'', ''revenue acme'' # s2 # ts1) #
     (''net_income_query'', ''net income acme'' # t2 # ts2) # rest"
    using formatted_templates_Acme by blast
  let ?others = "scored_pairs boom_engine (preprocess_text query)
      ((''net_income_query'', ''net income acme'' # t2 # ts2) # rest)"
  have p: "scored_pairs boom_engine (preprocess_text query) (formatted_templates ''Acme'')
      = [] @ (''revenue_query'', 1 / 2) # ?others"
    unfolding f by (simp add: boom_first_template(2))
  have "\<forall>p \<in> set ?others. snd p \<le> 1 / 2" using boom_scores by fastforce
  then show ?thesis
    by (intro analyze_available_first_max [OF p]) auto
qed


lemma faulty_first_templates:
  "fit_transform faulty_engine (pq # ''revenue acme'' # ts) = Inl (PyException ''failure'')"
  "try_query_type faulty_engine pq (qt, ''net income acme'' # t2 # ts2) (None, - 1)
     = ((Some qt, 1 / 2), Some (PyException ''boom''))"
  "scored_pairs faulty_engine pq ((qt, ''net income acme'' # t2 # ts2) # rest)
     = (qt, 1 / 2) # scored_pairs faulty_engine pq rest"
proof -
  show "fit_transform faulty_engine (pq # ''revenue acme'' # ts) = Inl (PyException ''failure'')"
    by (simp add: faulty_engine_def)
  have f: "fit_transform faulty_engine (pq # ''net income acme'' # t2 # ts2) = Inr ()"
    by (simp add: faulty_engine_def)
  have c1: "\<forall>i. 1 \<le> i \<and> i < 2 \<longrightarrow> (\<exists>x. cosine_similarity faulty_engine () i = Inr x)"
  proof (intro allI impI)
    fix i :: nat
    assume "1 \<le> i \<and> i < 2"
    then have "i = 1" by simp
    then show "\<exists>x. cosine_similarity faulty_engine () i = Inr x"
      by (intro exI [of _ "1 / 2"]) (simp add: faulty_engine_def)
  qed
  have c2: "cosine_similarity faulty_engine () 2 = Inl (PyException ''boom'')"
    by (simp add: faulty_engine_def)
  have v: "projr (cosine_similarity faulty_engine () 1) = 1 / 2"
    by (simp add: faulty_engine_def)
  have u: "[1..<2] = [1::nat]" by (simp add: upt_rec)
  show "try_query_type faulty_engine pq (qt, ''net income acme'' # t2 # ts2) (None, - 1)
     = ((Some qt, 1 / 2), Some (PyException ''boom''))"
    using similarity_failure(1) [OF f _ _ c1 c2, where qt = qt and st = "(None, - 1)"]
    by (simp add: u v update_best_def del: One_nat_def)
  show "scored_pairs faulty_engine pq ((qt, ''net income acme'' # t2 # ts2) # rest)
     = (qt, 1 / 2) # scored_pairs faulty_engine pq rest"
    using similarity_failure(2) [OF f _ _ c1 c2, where qt = qt and before = "[]" and nxt = rest]
    by (simp add: u v scored_pairs_def del: One_nat_def)
qed

section \<open>The engine with a rounding error\<close>

lemma float_epsilon_positive: "0 < float_epsilon"
  by (simp add: float_epsilon_def)

lemma rounding_scores:
  "scores_before_failure (\<lambda>i. case sim i of Inl e \<Rightarrow> Inl e | Inr x \<Rightarrow> Inr (x * c)) is
     = map (\<lambda>x. x * c) (scores_before_failure sim is)"
  by (induction "is") (auto split: sum.splits)

lemma rounding_pairs:
  "scored_pairs rounding_engine pq formatted =
     map (\<lambda>p. (fst p, snd p * (1 + float_epsilon))) (scored_pairs tfidf_engine pq formatted)"
proof (induction formatted)
  case Nil
  show ?case by (simp add: scored_pairs_def)
next
  case (Cons entry formatted)
  obtain qt templates where e: "entry = (qt, templates)" by (cases entry)
  show ?case
    unfolding e scored_pairs_Cons Cons.IH
    by (simp add: rounding_engine_def rounding_scores comp_def split: sum.splits)
qed

lemma rounding_scores_le:
  "\<forall>p \<in> set (scored_pairs rounding_engine pq formatted). snd p \<le> 1 + float_epsilon"
proof
  fix p
  assume "p \<in> set (scored_pairs rounding_engine pq formatted)"
  then obtain p' where p': "p' \<in> set (scored_pairs tfidf_engine pq formatted)"
    and p: "snd p = snd p' * (1 + float_epsilon)"
    unfolding rounding_pairs by auto
  have "snd p' \<le> 1" using tfidf_scores_bounds p' by blast
  then have "snd p' * (1 + float_epsilon) \<le> 1 * (1 + float_epsilon)"
    using float_epsilon_positive by (intro mult_right_mono) simp_all
  then show "snd p \<le> 1 + float_epsilon" unfolding p by simp
qed

lemma performance_question_pairs:
  "(''performance_query'', 1) \<in>
     set (scored_pairs tfidf_engine (preprocess_text ''How is Acme performing?'')
            (formatted_templates ''Acme''))"
proof -
  obtain before ts rest where f: "formatted_templates ''Acme'' =
      before @ (''performance_query'', ''acme performing'' # ts) # rest"
    using formatted_templates_performance [of "''Acme''"]
    by (auto simp: format_performance_question preprocess_performance_question)
  have tok: "tokenize ''acme performing'' \<noteq> []" by (simp add: tokenize_acme_performing)
  obtain others where "scored_pairs tfidf_engine ''acme performing''
      ((''performance_query'', ''acme performing'' # ts) # rest) = (''performance_query'', 1) # others"
    using tfidf_pairs_identical_text [OF tok, of "''performance_query''" ts rest] by auto
  then show ?thesis
    unfolding preprocess_performance_question f scored_pairs_append by simp
qed

lemma performance_question_rounding_pair:
  "(''performance_query'', 1 + float_epsilon) \<in>
     set (scored_pairs rounding_engine (preprocess_text ''How is Acme performing?'')
            (formatted_templates ''Acme''))"
proof -
  have "(\<lambda>p. (fst p, snd p * (1 + float_epsilon))) (''performance_query'', 1)
      \<in> set (scored_pairs rounding_engine (preprocess_text ''How is Acme performing?'')
            (formatted_templates ''Acme''))"
    unfolding rounding_pairs set_map using performance_question_pairs by (rule imageI)
  then show ?thesis by simp
qed

lemma performance_question_rounding:
  "confidence (identify_query_type (Available rounding_engine) ''How is Acme performing?'' ''Acme'')
     = 1 + float_epsilon"
proof -
  let ?ps = "scored_pairs rounding_engine (preprocess_text ''How is Acme performing?'')
            (formatted_templates ''Acme'')"
  let ?c = "confidence (identify_query_type (Available rounding_engine)
            ''How is Acme performing?'' ''Acme'')"
  have m: "(''performance_query'', 1 + float_epsilon) \<in> set ?ps"
    by (rule performance_question_rounding_pair)
  have "0 < snd (''performance_query'', 1 + float_epsilon)"
    using float_epsilon_positive by simp
  with m have "\<exists>p \<in> set ?ps. 0 < snd p" by blast
  then obtain p where p: "p \<in> set ?ps" "?c = snd p" "\<forall>p' \<in> set ?ps. snd p' \<le> snd p"
    using confidence_available_score by blast
  have "1 + float_epsilon \<le> snd p" using p(3) m by fastforce
  moreover have "snd p \<le> 1 + float_epsilon" using rounding_scores_le p(1) by blast
  ultimately show ?thesis using p(2) by simp
qed

lemma revenue_question_pairs:
  "(''revenue_query'', 1) \<in>
     set (scored_pairs tfidf_engine (preprocess_text ''What is the revenue of Acme?'')
            (formatted_templates ''Acme''))"
proof -
  obtain ts rest where f: "formatted_templates ''Acme'' =
      (''revenue_query'', ''revenue acme'' # ts) # rest"
    using formatted_templates_head [of "''Acme''"]
    by (auto simp: format_revenue_question preprocess_revenue_question)
  have tok: "tokenize ''revenue acme'' \<noteq> []" by (simp add: tokenize_revenue_acme)
  obtain others where "scored_pairs tfidf_engine ''revenue acme''
      ((''revenue_query'', ''revenue acme'' # ts) # rest) = (''revenue_query'', 1) # others"
    using tfidf_pairs_identical_text [OF tok, of "''revenue_query''" ts rest] by auto
  then show ?thesis
    unfolding preprocess_revenue_question f by simp
qed

section \<open>Claims about the classifier\<close>

text \<open>
  Claim C7. On the similarity path, let the loop meet the scores in the order of the
  template bank. If a pair \<open>(qt, m)\<close> carries the maximal score \<open>m\<close>, every pair met before
  it has a strictly smaller score and no pair met after it has a greater one (equal scores
  included), then the intent returned is \<open>qt\<close>: a later equal score does not replace it.
  For an engine in general the score \<open>m\<close> has to exceed the initial value \<open>-1\<close> of the
  loop; the scores of the TF-IDF engine of the model are not negative, so that the
  statement holds for it as it stands. The result is a function of the query, the
  company and the engine, so that a repeated run with the same input yields the same
  intent.
\<close>

theorem first_maximum_wins:
  "(\<forall>(engine :: 'e sklearn) xs qt m ys.
      scored_pairs engine (preprocess_text query) (formatted_templates company)
        = xs @ (qt, m) # ys \<and>
      (\<forall>p \<in> set xs. snd p < m) \<and> (\<forall>p \<in> set ys. snd p \<le> m) \<and> - 1 < m \<longrightarrow>
      query_type (analyze_query (Available engine) query company) = Some qt) \<and>
   (\<forall>xs qt m ys.
      scored_pairs tfidf_engine (preprocess_text query) (formatted_templates company)
        = xs @ (qt, m) # ys \<and>
      (\<forall>p \<in> set xs. snd p < m) \<and> (\<forall>p \<in> set ys. snd p \<le> m) \<longrightarrow>
      query_type (analyze_query (Available tfidf_engine) query company) = Some qt)"
proof (intro conjI allI impI)
  fix engine :: "'e sklearn" and xs qt m ys
  assume "scored_pairs engine (preprocess_text query) (formatted_templates company)
        = xs @ (qt, m) # ys \<and>
      (\<forall>p \<in> set xs. snd p < m) \<and> (\<forall>p \<in> set ys. snd p \<le> m) \<and> - 1 < m"
  then have "similarity_result engine query company = (Some qt, m)"
    by (intro analyze_available_first_max) blast+
  then show "query_type (analyze_query (Available engine) query company) = Some qt"
    by (simp add: analyze_query_type identify_available)
next
  fix xs qt m ys
  assume a: "scored_pairs tfidf_engine (preprocess_text query) (formatted_templates company)
        = xs @ (qt, m) # ys \<and>
      (\<forall>p \<in> set xs. snd p < m) \<and> (\<forall>p \<in> set ys. snd p \<le> m)"
  then have "(qt, m) \<in> set (scored_pairs tfidf_engine (preprocess_text query)
                               (formatted_templates company))"
    by simp
  then have "0 \<le> m" using tfidf_scores_bounds by fastforce
  then have "- 1 < m" by simp
  with a have "similarity_result tfidf_engine query company = (Some qt, m)"
    by (intro analyze_available_first_max) blast+
  then show "query_type (analyze_query (Available tfidf_engine) query company) = Some qt"
    by (simp add: analyze_query_type identify_available)
qed

theorem first_maximum_wins_witness:
  "(''net_income_query'', 0) \<in>
     set (scored_pairs tfidf_engine (preprocess_text []) (formatted_templates ''Acme'')) \<and>
   hd (scored_pairs tfidf_engine (preprocess_text []) (formatted_templates ''Acme''))
     = (''revenue_query'', 0) \<and>
   query_type (analyze_query (Available tfidf_engine) [] ''Acme'') = Some ''revenue_query''"
proof -
  obtain others where p: "scored_pairs tfidf_engine (preprocess_text []) (formatted_templates ''Acme'')
      = [] @ (''revenue_query'', 0) # others" and z: "\<forall>p \<in> set others. snd p = 0"
    using empty_query_pairs_Acme by auto
  have "\<forall>p \<in> set ([] :: (string \<times> real) list). snd p < 0" by simp
  moreover have "\<forall>p \<in> set others. snd p \<le> 0" using z by simp
  ultimately have
    "query_type (analyze_query (Available tfidf_engine) [] ''Acme'') = Some ''revenue_query''"
    using first_maximum_wins [of "[]" "''Acme''"] p by blast
  then show ?thesis using empty_query_tie_Acme p by simp
qed

text \<open>
  Claim C8, as amended. For every query and company and on either path the analysis is
  returned, with an intent and a non-empty list of metrics: the only operations that can
  raise are the two operations of the engine, both inside the \<open>try\<close> block. Without the
  engine the intent and the confidence are those of the term-based match and the keyword
  rules; with the engine they are those that the comparisons reach on the scores computed
  before each exception. When the vectorizer raises for a query type, the attempt leaves
  \<open>best_match\<close> and \<open>highest_score\<close> as they were and the result is that of the bank
  without this query type: the query type is skipped. When the similarity of template \<open>k\<close>
  raises after the templates before it were scored, the comparisons made for these stay
  in force and only the templates from \<open>k\<close> on are skipped. (The claim as stated, the
  failing query type is skipped, fails in this second case: the failing query type can be
  the one returned.)
\<close>

theorem analysis_always_returned:
  fixes sk :: "'m sklearn_import" and engine :: "'e sklearn"
  shows
  "(\<exists>intent. query_type (analyze_query sk query company) = Some intent) \<and>
   metrics (analyze_query sk query company) \<noteq> [] \<and>
   query_type (analyze_query Unavailable query company) =
     (case term_based_match query of
        None \<Rightarrow> fst (keyword_match (lower query) 0.3)
      | Some k \<Rightarrow> Some k) \<and>
   confidence (analyze_query Unavailable query company) =
     (case term_based_match query of
        None \<Rightarrow> snd (keyword_match (lower query) 0.3)
      | Some k \<Rightarrow> 0.5) \<and>
   query_type (analyze_query (Available engine) query company) =
     (case fst (similarity_result engine query company) of
        Some qt \<Rightarrow> Some qt
      | None \<Rightarrow> (case term_based_match query of
                   Some k \<Rightarrow> Some k | None \<Rightarrow> Some ''performance_query'')) \<and>
   confidence (analyze_query (Available engine) query company) =
     (if fst (similarity_result engine query company) = None \<and> term_based_match query = None
      then 0.2
      else if snd (similarity_result engine query company) > 0
      then snd (similarity_result engine query company) else 0.3) \<and>
   (\<forall>before qt templates nxt e st.
      formatted_templates company = before @ (qt, templates) # nxt \<and>
      fit_transform engine (preprocess_text query # templates) = Inl e \<longrightarrow>
      try_query_type engine (preprocess_text query) (qt, templates) st = (st, Some e) \<and>
      similarity_result engine query company =
        fold update_best (scored_pairs engine (preprocess_text query) (before @ nxt)) (None, - 1)) \<and>
   (\<forall>before qt templates nxt m k e st.
      formatted_templates company = before @ (qt, templates) # nxt \<and>
      fit_transform engine (preprocess_text query # templates) = Inr m \<and>
      1 \<le> k \<and> k \<le> length templates \<and>
      (\<forall>i. 1 \<le> i \<and> i < k \<longrightarrow> (\<exists>x. cosine_similarity engine m i = Inr x)) \<and>
      cosine_similarity engine m k = Inl e \<longrightarrow>
      try_query_type engine (preprocess_text query) (qt, templates) st =
        (fold update_best
           (map (\<lambda>i. (qt, projr (cosine_similarity engine m i))) [1..<k]) st, Some e) \<and>
      similarity_result engine query company =
        fold update_best
          (scored_pairs engine (preprocess_text query) before @
           map (\<lambda>i. (qt, projr (cosine_similarity engine m i))) [1..<k] @
           scored_pairs engine (preprocess_text query) nxt) (None, - 1))"
proof (intro conjI allI impI)
  show "\<exists>intent. query_type (analyze_query sk query company) = Some intent"
    unfolding analyze_query_type by (rule identify_query_type_Some)
  show "metrics (analyze_query sk query company) \<noteq> []"
    by (rule analyze_metrics_nonempty)
  show "query_type (analyze_query Unavailable query company) =
     (case term_based_match query of
        None \<Rightarrow> fst (keyword_match (lower query) 0.3)
      | Some k \<Rightarrow> Some k)"
    unfolding analyze_query_type by (rule identify_unavailable(1))
  show "confidence (analyze_query Unavailable query company) =
     (case term_based_match query of
        None \<Rightarrow> snd (keyword_match (lower query) 0.3)
      | Some k \<Rightarrow> 0.5)"
    unfolding analyze_confidence by (rule identify_unavailable(2))
  show "query_type (analyze_query (Available engine) query company) =
     (case fst (similarity_result engine query company) of
        Some qt \<Rightarrow> Some qt
      | None \<Rightarrow> (case term_based_match query of
                   Some k \<Rightarrow> Some k | None \<Rightarrow> Some ''performance_query''))"
    unfolding analyze_query_type by (rule identify_available(1))
  show "confidence (analyze_query (Available engine) query company) =
     (if fst (similarity_result engine query company) = None \<and> term_based_match query = None
      then 0.2
      else if snd (similarity_result engine query company) > 0
      then snd (similarity_result engine query company) else 0.3)"
    unfolding analyze_confidence by (rule identify_available(2))
next
  fix before qt templates nxt e st
  assume "formatted_templates company = before @ (qt, templates) # nxt \<and>
      fit_transform engine (preprocess_text query # templates) = Inl e"
  then show "try_query_type engine (preprocess_text query) (qt, templates) st = (st, Some e)"
    by (intro vectorizer_failure(1)) simp
next
  fix before qt templates nxt e
  assume a: "formatted_templates company = before @ (qt, templates) # nxt \<and>
      fit_transform engine (preprocess_text query # templates) = Inl e"
  then have "scored_pairs engine (preprocess_text query) (before @ (qt, templates) # nxt) =
         scored_pairs engine (preprocess_text query) (before @ nxt)"
    by (intro vectorizer_failure(2)) simp
  then show "similarity_result engine query company =
        fold update_best (scored_pairs engine (preprocess_text query) (before @ nxt)) (None, - 1)"
    unfolding similarity_result_def using a by simp
next
  fix before qt templates nxt m k e st
  assume "formatted_templates company = before @ (qt, templates) # nxt \<and>
      fit_transform engine (preprocess_text query # templates) = Inr m \<and>
      1 \<le> k \<and> k \<le> length templates \<and>
      (\<forall>i. 1 \<le> i \<and> i < k \<longrightarrow> (\<exists>x. cosine_similarity engine m i = Inr x)) \<and>
      cosine_similarity engine m k = Inl e"
  then show "try_query_type engine (preprocess_text query) (qt, templates) st =
        (fold update_best
           (map (\<lambda>i. (qt, projr (cosine_similarity engine m i))) [1..<k]) st, Some e)"
    by (intro similarity_failure(1)) blast+
next
  fix before qt templates nxt m k e
  assume a: "formatted_templates company = before @ (qt, templates) # nxt \<and>
      fit_transform engine (preprocess_text query # templates) = Inr m \<and>
      1 \<le> k \<and> k \<le> length templates \<and>
      (\<forall>i. 1 \<le> i \<and> i < k \<longrightarrow> (\<exists>x. cosine_similarity engine m i = Inr x)) \<and>
      cosine_similarity engine m k = Inl e"
  then have "scored_pairs engine (preprocess_text query) (before @ (qt, templates) # nxt) =
         scored_pairs engine (preprocess_text query) before @
         map (\<lambda>i. (qt, projr (cosine_similarity engine m i))) [1..<k] @
         scored_pairs engine (preprocess_text query) nxt"
    by (intro similarity_failure(2)) blast+
  then show "similarity_result engine query company =
        fold update_best
          (scored_pairs engine (preprocess_text query) before @
           map (\<lambda>i. (qt, projr (cosine_similarity engine m i))) [1..<k] @
           scored_pairs engine (preprocess_text query) nxt) (None, - 1)"
    unfolding similarity_result_def using a by simp
qed

theorem analysis_always_returned_witness:
  "fit_transform faulty_engine
     (preprocess_text ''What is the revenue of Acme?'' # snd (formatted_templates ''Acme'' ! 0))
     = Inl (PyException ''failure'') \<and>
   try_query_type faulty_engine (preprocess_text ''What is the revenue of Acme?'')
     (formatted_templates ''Acme'' ! 0) (None, - 1)
     = ((None, - 1), Some (PyException ''failure'')) \<and>
   cosine_similarity faulty_engine () 2 = Inl (PyException ''boom'') \<and>
   try_query_type faulty_engine (preprocess_text ''What is the revenue of Acme?'')
     (formatted_templates ''Acme'' ! 1) (None, - 1)
     = ((Some ''net_income_query'', 1 / 2), Some (PyException ''boom'')) \<and>
   query_type (analyze_query (Available faulty_engine) ''What is the revenue of Acme?'' ''Acme'')
     = Some ''net_income_query'' \<and>
   confidence (analyze_query (Available faulty_engine) ''What is the revenue of Acme?'' ''Acme'')
     = 1 / 2"
proof -
  let ?q = "''What is the revenue of Acme?''"
  let ?pq = "preprocess_text ?q"
  obtain s2 ts1 t2 ts2 rest where f: "formatted_templates ''Acme'' =
     (''revenue_query'', ''revenue acme'' # s2 # ts1) #
     (''net_income_query'', ''net income acme'' # t2 # ts2) # rest"
    using formatted_templates_Acme by blast
  let ?e1 = "(''revenue_query'', ''revenue acme'' # s2 # ts1)"
  let ?e2 = "(''net_income_query'', ''net income acme'' # t2 # ts2)"
  note t = analysis_always_returned [where sk = "Available faulty_engine" and query = ?q
      and company = "''Acme''" and engine = faulty_engine]
  have f1: "formatted_templates ''Acme'' = [] @ ?e1 # (?e2 # rest)" using f by simp
  have v: "fit_transform faulty_engine (?pq # ''revenue acme'' # s2 # ts1)
      = Inl (PyException ''failure'')"
    by (rule faulty_first_templates(1))
  from t f1 v have skip:
    "try_query_type faulty_engine ?pq ?e1 (None, - 1) = ((None, - 1), Some (PyException ''failure''))"
    "similarity_result faulty_engine ?q ''Acme'' =
       fold update_best (scored_pairs faulty_engine ?pq ([] @ (?e2 # rest))) (None, - 1)"
    by blast+
  have f2: "formatted_templates ''Acme'' = [?e1] @ ?e2 # rest" using f by simp
  have w: "fit_transform faulty_engine (?pq # ''net income acme'' # t2 # ts2) = Inr ()"
    by (simp add: faulty_engine_def)
  have k: "(1::nat) \<le> 2" "2 \<le> length (''net income acme'' # t2 # ts2)" by simp_all
  have c1: "\<forall>i. 1 \<le> i \<and> i < 2 \<longrightarrow> (\<exists>x. cosine_similarity faulty_engine () i = Inr x)"
  proof (intro allI impI)
    fix i :: nat
    assume "1 \<le> i \<and> i < 2"
    then have "i = 1" by simp
    then show "\<exists>x. cosine_similarity faulty_engine () i = Inr x"
      by (intro exI [of _ "1 / 2"]) (simp add: faulty_engine_def)
  qed
  have c2: "cosine_similarity faulty_engine () 2 = Inl (PyException ''boom'')"
    by (simp add: faulty_engine_def)
  from t f2 w k c1 c2 have kept:
    "try_query_type faulty_engine ?pq ?e2 (None, - 1) =
       (fold update_best
          (map (\<lambda>i. (''net_income_query'', projr (cosine_similarity faulty_engine () i))) [1..<2])
          (None, - 1), Some (PyException ''boom''))"
    by blast
  have "[1..<2] = [1::nat]" by (simp add: upt_rec)
  moreover have "projr (cosine_similarity faulty_engine () 1) = 1 / 2"
    by (simp add: faulty_engine_def)
  ultimately have kept': "try_query_type faulty_engine ?pq ?e2 (None, - 1) =
       ((Some ''net_income_query'', 1 / 2), Some (PyException ''boom''))"
    using kept by (simp add: update_best_def del: One_nat_def)
  have "\<forall>p \<in> set (scored_pairs faulty_engine ?pq rest). snd p \<le> 1 / 2"
    using faulty_scores by fastforce
  then have "fold update_best
      ([] @ (''net_income_query'', 1 / 2) # scored_pairs faulty_engine ?pq rest) (None, - 1)
      = (Some ''net_income_query'', 1 / 2)"
    by (intro fold_update_first_max) auto
  then have r: "similarity_result faulty_engine ?q ''Acme'' = (Some ''net_income_query'', 1 / 2)"
    unfolding skip(2) by (simp add: faulty_first_templates(3))
  from t have "query_type (analyze_query (Available faulty_engine) ?q ''Acme'') =
     (case fst (similarity_result faulty_engine ?q ''Acme'') of
        Some qt \<Rightarrow> Some qt
      | None \<Rightarrow> (case term_based_match ?q of
                   Some k \<Rightarrow> Some k | None \<Rightarrow> Some ''performance_query''))"
    and "confidence (analyze_query (Available faulty_engine) ?q ''Acme'') =
     (if fst (similarity_result faulty_engine ?q ''Acme'') = None \<and> term_based_match ?q = None
      then 0.2
      else if snd (similarity_result faulty_engine ?q ''Acme'') > 0
      then snd (similarity_result faulty_engine ?q ''Acme'') else 0.3)"
    by blast+
  then have "query_type (analyze_query (Available faulty_engine) ?q ''Acme'')
     = Some ''net_income_query''"
    and "confidence (analyze_query (Available faulty_engine) ?q ''Acme'') = 1 / 2"
    unfolding r by simp_all
  then show ?thesis
    using skip(1) kept' c2 v unfolding f by simp
qed

theorem failing_query_type_returned:
  "try_query_type boom_engine (preprocess_text ''How is Acme performing?'')
     (formatted_templates ''Acme'' ! 0) (None, - 1)
     = ((Some ''revenue_query'', 1 / 2), Some (PyException ''boom'')) \<and>
   query_type (analyze_query (Available boom_engine) ''How is Acme performing?'' ''Acme'')
     = Some ''revenue_query'' \<and>
   confidence (analyze_query (Available boom_engine) ''How is Acme performing?'' ''Acme'')
     = 1 / 2"
proof -
  obtain s2 ts1 t2 ts2 rest where f: "formatted_templates ''Acme'' =
     (''revenue_query'', ''revenue acme'' # s2 # ts1) #
     (''net_income_query'', ''net income acme'' # t2 # ts2) # rest"
    using formatted_templates_Acme by blast
  show ?thesis
    unfolding f
    by (simp add: boom_first_template(1) analyze_query_type analyze_confidence identify_available
          boom_similarity_result)
qed

text \<open>
  Claim C9, as amended. For every query and company the confidence is a positive real
  number, never absent. Without the engine it is one of 0.5, 0.3 and 0.2. With the engine
  it is 0.3 or 0.2 when no score of the run is positive, and otherwise it is the maximal
  score of the run as the engine returned it: the code does not clamp it, so that it is at
  most 1 exactly when every score of the run is. (The claim as stated, a confidence within
  \<open>[0, 1]\<close> in every case, fails for a score above 1, and in IEEE double arithmetic the
  similarity of a text with itself can be \<open>1.0000000000000002\<close>.)
\<close>

theorem confidence_default_or_maximal_score:
  "0 < confidence (analyze_query sk query company) \<and>
   confidence (analyze_query Unavailable query company) \<in> {0.5, 0.3, 0.2} \<and>
   (\<forall>engine.
      ((\<forall>p \<in> set (scored_pairs engine (preprocess_text query) (formatted_templates company)).
          snd p \<le> 0) \<longrightarrow>
       confidence (analyze_query (Available engine) query company) \<in> {0.3, 0.2}) \<and>
      ((\<exists>p \<in> set (scored_pairs engine (preprocess_text query) (formatted_templates company)).
          0 < snd p) \<longrightarrow>
       (\<exists>p \<in> set (scored_pairs engine (preprocess_text query) (formatted_templates company)).
          confidence (analyze_query (Available engine) query company) = snd p \<and>
          (\<forall>p' \<in> set (scored_pairs engine (preprocess_text query) (formatted_templates company)).
              snd p' \<le> snd p)) \<and>
       (confidence (analyze_query (Available engine) query company) \<le> 1 \<longleftrightarrow>
        (\<forall>p \<in> set (scored_pairs engine (preprocess_text query) (formatted_templates company)).
            snd p \<le> 1))))"
proof -
  have pos: "0 < confidence (identify_query_type sk query company)"
  proof (cases sk)
    case Unavailable
    have "confidence (identify_query_type sk query company) \<in> {0.5, 0.3, 0.2}"
      unfolding Unavailable by (rule confidence_unavailable)
    then show ?thesis by (elim insertE emptyE) linarith+
  next
    case (Available engine)
    then show ?thesis using confidence_available_positive by simp
  qed
  have iff: "confidence (identify_query_type (Available engine) query company) \<le> 1 \<longleftrightarrow>
        (\<forall>p \<in> set (scored_pairs engine (preprocess_text query) (formatted_templates company)).
            snd p \<le> 1)"
    if pz: "\<exists>p \<in> set (scored_pairs engine (preprocess_text query) (formatted_templates company)).
          0 < snd p" for engine :: "'e sklearn"
  proof -
    obtain p where "p \<in> set (scored_pairs engine (preprocess_text query) (formatted_templates company))"
      "confidence (identify_query_type (Available engine) query company) = snd p"
      "\<forall>p' \<in> set (scored_pairs engine (preprocess_text query) (formatted_templates company)).
              snd p' \<le> snd p"
      using confidence_available_score [OF pz] by blast
    then show ?thesis by force
  qed
  from pos iff show ?thesis
    unfolding analyze_confidence
    using confidence_unavailable confidence_available_default confidence_available_score
    by (intro conjI allI impI) simp_all
qed

theorem confidence_default_or_maximal_score_witness:
  "(''revenue_query'', 1) \<in>
     set (scored_pairs tfidf_engine (preprocess_text ''What is the revenue of Acme?'')
            (formatted_templates ''Acme'')) \<and>
   confidence (analyze_query (Available tfidf_engine) ''What is the revenue of Acme?'' ''Acme'') = 1 \<and>
   confidence (analyze_query (Available tfidf_engine) [] ''Acme'') \<in> {0.3, 0.2}"
proof -
  let ?q = "''What is the revenue of Acme?''"
  let ?ps = "scored_pairs tfidf_engine (preprocess_text ?q) (formatted_templates ''Acme'')"
  have m: "(''revenue_query'', 1) \<in> set ?ps" by (rule revenue_question_pairs)
  then have "\<exists>p \<in> set ?ps. 0 < snd p" by force
  with confidence_default_or_maximal_score [of "Available tfidf_engine" ?q "''Acme''"]
  obtain p where p: "p \<in> set ?ps"
    "confidence (analyze_query (Available tfidf_engine) ?q ''Acme'') = snd p"
    "\<forall>p' \<in> set ?ps. snd p' \<le> snd p"
    by blast
  have "1 \<le> snd p" using p(3) m by fastforce
  moreover have "snd p \<le> 1" using tfidf_scores_bounds p(1) by blast
  ultimately have one: "confidence (analyze_query (Available tfidf_engine) ?q ''Acme'') = 1"
    using p(2) by simp
  have z: "\<forall>p \<in> set (scored_pairs tfidf_engine (preprocess_text []) (formatted_templates ''Acme'')).
             snd p \<le> 0"
    using scored_pairs_no_tokens_zero [of "preprocess_text []" "formatted_templates ''Acme''"]
    by (simp add: preprocess_empty tokenize_empty)
  with confidence_default_or_maximal_score [of "Available tfidf_engine" "[]" "''Acme''"]
  have "confidence (analyze_query (Available tfidf_engine) [] ''Acme'') \<in> {0.3, 0.2}"
    by blast
  with m one show ?thesis by blast
qed

theorem confidence_above_one:
  "confidence (analyze_query (Available rounding_engine) ''How is Acme performing?'' ''Acme'')
     = 1 + 1 / 2 ^ 52 \<and>
   1 < confidence (analyze_query (Available rounding_engine) ''How is Acme performing?'' ''Acme'')"
  unfolding analyze_confidence performance_question_rounding
  by (simp add: float_epsilon_def)

section \<open>The empty query\<close>

text \<open>
  With the TF-IDF engine \<open>best_match\<close> is set as soon as one template is scored, since no
  score is below 0 and the loop starts from \<open>-1\<close>: neither the term-based fallback nor the
  default behind the loop is reached then.
\<close>

lemma tfidf_best_match_set:
  assumes "scored_pairs tfidf_engine (preprocess_text query) (formatted_templates company) \<noteq> []"
  shows "fst (similarity_result tfidf_engine query company) \<noteq> None"
proof -
  let ?ps = "scored_pairs tfidf_engine (preprocess_text query) (formatted_templates company)"
  obtain p where p: "p \<in> set ?ps" using assms by (cases ?ps) auto
  then have "0 \<le> snd p" using tfidf_scores_bounds by blast
  moreover have "snd p \<le> snd (fold update_best ?ps (None, - 1))"
    using fold_update_ge_scores p by blast
  ultimately have "fold update_best ?ps (None, - 1) \<noteq> (None, - 1)" by auto
  then show ?thesis
    using fold_update_result [of ?ps "(None, - 1)"] unfolding similarity_result_def by auto
qed

text \<open>
  Claim C3. For the empty query and the company \<open>Acme\<close> the analysis is returned with
  \<open>metrics = ["all"]\<close> and \<open>time_periods = []\<close>. Without the engine the intent is
  \<open>performance_query\<close> with confidence 0.2. With the TF-IDF engine the intent is
  \<open>revenue_query\<close> with confidence 0.3, not \<open>performance_query\<close> with 0.2: the empty
  query scores 0 against every template, 0 exceeds the start value \<open>-1\<close> of
  \<open>highest_score\<close>, and the first query type of the bank becomes \<open>best_match\<close>, so that
  the default \<open>performance_query\<close> with 0.2, guarded by \<open>best_match is None\<close>, is not
  reached.
\<close>

theorem empty_query_on_both_paths:
  "query_type (analyze_query (Available tfidf_engine) [] ''Acme'') = Some ''revenue_query'' \<and>
   confidence (analyze_query (Available tfidf_engine) [] ''Acme'') = 0.3 \<and>
   query_type (analyze_query (Unavailable :: unit sklearn_import) [] ''Acme'')
     = Some ''performance_query'' \<and>
   confidence (analyze_query (Unavailable :: unit sklearn_import) [] ''Acme'') = 0.2 \<and>
   metrics (analyze_query (Available tfidf_engine) [] ''Acme'') = [''all''] \<and>
   time_periods (analyze_query (Available tfidf_engine) [] ''Acme'') = []"
  by (simp add: analyze_query_type analyze_confidence identify_available
        empty_query_similarity_Acme identify_unavailable term_based_match_empty lower_def
        keyword_match_empty analyze_metrics analyze_time_periods extract_empty dict_keys_def)

section \<open>The intent field on the path without the engine\<close>

text \<open>
  Claim C2. For the query \<open>What is the revenue of Acme?\<close> and the company \<open>Acme\<close> the
  intent is \<open>revenue_query\<close> with the TF-IDF engine of the model: the first template of
  that intent is the query itself and scores 1, which no later score exceeds. Without
  the engine the classifier returns the name of the first term category, \<open>revenue\<close>, with
  confidence 0.5, and not the intent \<open>revenue_query\<close>: the keyword rules that would yield
  \<open>revenue_query\<close> are tried only when no term category was found.
\<close>

theorem revenue_question_on_both_paths:
  "query_type (analyze_query (Available tfidf_engine)
      ''What is the revenue of Acme?'' ''Acme'') = Some ''revenue_query'' \<and>
   query_type (analyze_query (Unavailable :: unit sklearn_import)
      ''What is the revenue of Acme?'' ''Acme'') = Some ''revenue'' \<and>
   confidence (analyze_query (Unavailable :: unit sklearn_import)
      ''What is the revenue of Acme?'' ''Acme'') = 0.5"
proof -
  have "term_based_match ''What is the revenue of Acme?'' = Some ''revenue''"
  proof (rule term_based_match_revenue [of "''revenue''"])
    show "''revenue'' \<in> set [''revenue'', ''sales'', ''income'', ''earnings'', ''money'', ''earn'',
                     ''top line'', ''turnover'']" by simp
    show "re_search_term ''revenue'' None (lower ''What is the revenue of Acme?'')"
      by (simp only: lower_revenue_question revenue_found_in_question)
  qed
  then show ?thesis
    by (simp add: analyze_query_type analyze_confidence identify_unavailable identify_available
          revenue_query_with_tfidf)
qed

text \<open>
  Claim C1, on the path without the engine. For the query \<open>Acme profit\<close> the intent field
  is \<open>net_income\<close>, the name of a term category, which is none of the nine intent
  identifiers.
\<close>

theorem category_name_as_intent:
  "query_type (analyze_query (Unavailable :: unit sklearn_import) ''Acme profit'' ''Acme'')
     = Some ''net_income'' \<and>
   ''net_income'' \<notin> set INTENTS"
proof -
  have "term_based_match ''Acme profit'' = Some ''net_income''"
    by (simp add: term_based_match_def extract_acme_profit)
  then show ?thesis
    by (simp add: analyze_query_type identify_unavailable INTENTS_eq)
qed

end
